theory Spec2Isabelle
  imports Complex_Main "HOL-Library.AList"
begin

section \<open>The multiplayer client of \<open>game.js\<close>: data\<close>

text \<open>
  JavaScript numbers that carry world coordinates are modelled as rationals (every finite
  double is a rational); \<open>NaN\<close> and the infinities are not values of the model, so an
  actor record always has numeric \<open>x\<close> and \<open>y\<close>. The viewport size is the canvas size,
  which the DOM keeps as an integer, and the world size is the integer constant of the
  constructor. Field names carry a prefix where the bare name would collide with a
  variable or a HOL constant.
\<close>

type_synonym addr = nat

record player =
  p_id :: string
  p_x :: rat
  p_y :: rat
  p_facing :: string
  p_animationFrame :: int
  p_isMoving :: bool
  p_username :: string
  p_avatar :: string

text \<open>
  The value of one entry of \<open>players\<close> in a \<open>players_moved\<close> message: an object that
  carries any subset of the actor's fields.
\<close>

record player_update =
  u_id :: "string option"
  u_x :: "rat option"
  u_y :: "rat option"
  u_facing :: "string option"
  u_animationFrame :: "int option"
  u_isMoving :: "bool option"
  u_username :: "string option"
  u_avatar :: "string option"

record image =
  img_src :: string
  img_complete :: bool

record avatar =
  av_name :: string
  av_frames :: "(string \<times> string list) list"
  av_loadedImagesByDir :: "(string \<times> image list) list option"

record camera_rec =
  cam_x :: rat
  cam_y :: rat
  cam_width :: int
  cam_height :: int

text \<open>
  The fields of \<open>GameClient\<close>. Actor records are JavaScript objects, shared by reference
  between the table \<open>players\<close> and the field \<open>myPlayer\<close>; the model keeps them in an
  explicit store \<open>heap\<close> (address to record) with the next free address \<open>lim\<close>.
  \<open>ws_open\<close> stands for \<open>this.ws && this.ws.readyState === WebSocket.OPEN\<close>.
\<close>

record client =
  worldWidth :: int
  worldHeight :: int
  playerId :: "string option"
  players :: "string \<rightharpoonup> addr"
  avatars :: "string \<rightharpoonup> avatar"
  myPlayer :: "addr option"
  camera :: camera_rec
  ws_open :: bool
  reconnectAttempts :: nat
  maxReconnectAttempts :: nat
  needsRedraw :: bool
  worldImageLoaded :: bool
  playerDataReceived :: bool
  heap :: "addr \<Rightarrow> player"
  lim :: addr

text \<open>
  What a handler does to the outside, in order: a frame sent on the socket, a timer set
  for \<open>connectToServer\<close> (delay in milliseconds), a line on the error console, and the
  mark \<open>CenterCamera\<close> that the body of \<open>centerCameraOnPlayer\<close> ran past its guard.
\<close>

datatype outmsg = JoinGameReq string | MoveDir string | MoveTo rat rat | StopReq

datatype effect =
    WsSend outmsg
  | SetTimeout nat
  | ConsoleError string "string option"
  | CenterCamera

section \<open>Camera\<close>

definition Math_round :: "rat \<Rightarrow> rat" where
  "Math_round v = of_int \<lfloor>v + 1 / 2\<rfloor>"

definition centerCameraOnPlayer :: "client \<Rightarrow> effect list \<times> client" where
  "centerCameraOnPlayer s =
     (case myPlayer s of
        None \<Rightarrow> ([], s)
      | Some a \<Rightarrow>
          (let cam = camera s;
               idealX = p_x (heap s a) - of_int (cam_width cam) / 2;
               idealY = p_y (heap s a) - of_int (cam_height cam) / 2;
               cx = max 0 (min idealX (of_int (worldWidth s - cam_width cam)));
               cy = max 0 (min idealY (of_int (worldHeight s - cam_height cam)))
           in ([CenterCamera],
               s\<lparr>camera := cam\<lparr>cam_x := Math_round cx, cam_y := Math_round cy\<rparr>,
                 needsRedraw := True\<rparr>)))"

definition checkAndCenterCamera :: "client \<Rightarrow> effect list \<times> client" where
  "checkAndCenterCamera s =
     (if worldImageLoaded s \<and> playerDataReceived s \<and> myPlayer s \<noteq> None
      then centerCameraOnPlayer s else ([], s))"


section \<open>Server messages\<close>

record join_game_msg =
  jg_success :: bool
  jg_playerId :: string
  jg_players :: "(string \<times> player) list"
  jg_avatars :: "(string \<times> avatar) list"
  jg_error :: "string option"

datatype message =
    JoinGame join_game_msg
  | PlayerJoined player avatar
  | PlayersMoved "(string \<times> player_update) list"
  | PlayerLeft string
  | UnknownAction string

text \<open>
  \<open>Object.assign(target, source)\<close> on an actor record: every field the source carries
  overwrites the target's, every other field of the target stays.
\<close>

definition Object_assign :: "player \<Rightarrow> player_update \<Rightarrow> player" where
  "Object_assign p u =
     \<lparr>p_id = (case u_id u of None \<Rightarrow> p_id p | Some v \<Rightarrow> v),
      p_x = (case u_x u of None \<Rightarrow> p_x p | Some v \<Rightarrow> v),
      p_y = (case u_y u of None \<Rightarrow> p_y p | Some v \<Rightarrow> v),
      p_facing = (case u_facing u of None \<Rightarrow> p_facing p | Some v \<Rightarrow> v),
      p_animationFrame =
        (case u_animationFrame u of None \<Rightarrow> p_animationFrame p | Some v \<Rightarrow> v),
      p_isMoving = (case u_isMoving u of None \<Rightarrow> p_isMoving p | Some v \<Rightarrow> v),
      p_username = (case u_username u of None \<Rightarrow> p_username p | Some v \<Rightarrow> v),
      p_avatar = (case u_avatar u of None \<Rightarrow> p_avatar p | Some v \<Rightarrow> v)\<rparr>"

section \<open>Avatars\<close>

definition new_Image :: "string \<Rightarrow> image" where
  "new_Image dataUrl = \<lparr>img_src = dataUrl, img_complete = False\<rparr>"

text \<open>
  The loop of \<open>preloadAvatar\<close> over \<open>Object.entries(avatar.frames)\<close>: the array of a
  direction gets a new image at every index of the direction's frames and keeps what it
  held beyond them.
\<close>

fun preload_dirs ::
  "(string \<times> string list) list \<Rightarrow> (string \<times> image list) list \<Rightarrow> (string \<times> image list) list"
where
  "preload_dirs [] loaded = loaded"
| "preload_dirs ((dir, frames) # rest) loaded =
     preload_dirs rest
       (AList.update dir
          (map new_Image frames
             @ drop (length frames) (case map_of loaded dir of None \<Rightarrow> [] | Some old \<Rightarrow> old))
          loaded)"

definition preloadAvatar :: "avatar \<Rightarrow> avatar" where
  "preloadAvatar av =
     av\<lparr>av_loadedImagesByDir :=
          Some (preload_dirs (av_frames av)
                  (case av_loadedImagesByDir av of None \<Rightarrow> [] | Some l \<Rightarrow> l))\<rparr>"

definition preloadAvatars :: "client \<Rightarrow> client" where
  "preloadAvatars s = s\<lparr>avatars := (\<lambda>k. map_option preloadAvatar (avatars s k))\<rparr>"

section \<open>The handlers of server messages\<close>

text \<open>
  \<open>this.players = message.players\<close>: the parsed message's actor objects are new objects,
  so each gets a fresh address. Of two entries with one key the first is the object's.
\<close>

fun alloc_players ::
  "(string \<times> player) list \<Rightarrow> addr \<Rightarrow> (addr \<Rightarrow> player)
     \<Rightarrow> (string \<rightharpoonup> addr) \<times> addr \<times> (addr \<Rightarrow> player)"
where
  "alloc_players [] n h = (Map.empty, n, h)"
| "alloc_players ((k, p) # rest) n h =
     (case alloc_players rest n h of
        (tbl, n', h') \<Rightarrow> (tbl(k \<mapsto> n'), Suc n', h'(n' := p)))"

definition handleJoinGameSuccess :: "join_game_msg \<Rightarrow> client \<Rightarrow> effect list \<times> client" where
  "handleJoinGameSuccess m s =
     (case alloc_players (jg_players m) (lim s) (heap s) of
        (tbl, n, h) \<Rightarrow>
          (case checkAndCenterCamera
                  (s\<lparr>playerId := Some (jg_playerId m),
                     players := tbl, heap := h, lim := n,
                     avatars := map_of (jg_avatars m),
                     myPlayer := tbl (jg_playerId m),
                     playerDataReceived := True\<rparr>) of
             (out, s') \<Rightarrow> (out, (preloadAvatars s')\<lparr>needsRedraw := True\<rparr>)))"

definition handlePlayerJoined :: "player \<Rightarrow> avatar \<Rightarrow> client \<Rightarrow> effect list \<times> client" where
  "handlePlayerJoined p av s =
     ([], s\<lparr>players := (players s)(p_id p \<mapsto> lim s),
            heap := (heap s)(lim s := p),
            lim := Suc (lim s),
            avatars := (avatars s)(av_name av \<mapsto> preloadAvatar av),
            needsRedraw := True\<rparr>)"

text \<open>
  The \<open>forEach\<close> of \<open>handlePlayersMoved\<close> over \<open>Object.keys(message.players)\<close>: an id
  with an entry in the table has the update merged into its record.
\<close>

fun assign_moved ::
  "(string \<rightharpoonup> addr) \<Rightarrow> (string \<times> player_update) list \<Rightarrow> string list
     \<Rightarrow> (addr \<Rightarrow> player) \<Rightarrow> (addr \<Rightarrow> player)"
where
  "assign_moved tbl upd [] h = h"
| "assign_moved tbl upd (k # ks) h =
     assign_moved tbl upd ks
       (case tbl k of
          None \<Rightarrow> h
        | Some a \<Rightarrow>
            (case map_of upd k of
               None \<Rightarrow> h
             | Some u \<Rightarrow> h(a := Object_assign (h a) u)))"

text \<open>The property key a value of \<open>this.playerId\<close> names: \<open>null\<close> reads as \<open>"null"\<close>.\<close>

definition key_of :: "string option \<Rightarrow> string" where
  "key_of k = (case k of None \<Rightarrow> ''null'' | Some i \<Rightarrow> i)"

definition handlePlayersMoved ::
  "(string \<times> player_update) list \<Rightarrow> client \<Rightarrow> effect list \<times> client"
where
  "handlePlayersMoved upd s =
     (let s1 = s\<lparr>heap := assign_moved (players s) upd (map fst upd) (heap s)\<rparr>
      in case (case myPlayer s1 of
                 None \<Rightarrow> ([], s1)
               | Some a \<Rightarrow>
                   (case map_of upd (key_of (playerId s1)) of
                      None \<Rightarrow> ([], s1)
                    | Some u \<Rightarrow>
                        centerCameraOnPlayer
                          (s1\<lparr>heap := (heap s1)(a := Object_assign (heap s1 a) u)\<rparr>))) of
           (out, s2) \<Rightarrow> (out, s2\<lparr>needsRedraw := True\<rparr>))"

definition handlePlayerLeft :: "string \<Rightarrow> client \<Rightarrow> effect list \<times> client" where
  "handlePlayerLeft i s = ([], s\<lparr>players := (players s)(i := None), needsRedraw := True\<rparr>)"

fun handleServerMessage :: "message \<Rightarrow> client \<Rightarrow> effect list \<times> client" where
  "handleServerMessage (JoinGame m) s =
     (if jg_success m then handleJoinGameSuccess m s
      else ([ConsoleError ''Join game failed:'' (jg_error m)], s))"
| "handleServerMessage (PlayerJoined p av) s = handlePlayerJoined p av s"
| "handleServerMessage (PlayersMoved upd) s = handlePlayersMoved upd s"
| "handleServerMessage (PlayerLeft i) s = handlePlayerLeft i s"
| "handleServerMessage (UnknownAction a) s = ([], s)"

section \<open>Connection\<close>

definition attemptReconnect :: "client \<Rightarrow> effect list \<times> client" where
  "attemptReconnect s =
     (if reconnectAttempts s < maxReconnectAttempts s
      then ([SetTimeout (2000 * (reconnectAttempts s + 1))],
            s\<lparr>reconnectAttempts := reconnectAttempts s + 1\<rparr>)
      else ([ConsoleError ''Max reconnection attempts reached'' None], s))"

definition joinGame :: "client \<Rightarrow> effect list \<times> client" where
  "joinGame s = ([WsSend (JoinGameReq ''Blankey'')], s)"

text \<open>
  \<open>connectToServer\<close>, the timer's callback. The argument is the outcome of
  \<open>new WebSocket(...)\<close>: \<open>None\<close> when it returns a new socket, not yet open, with the
  handlers installed; \<open>Some err\<close> when it throws \<open>err\<close>, which the \<open>catch\<close> branch writes
  to the console before it calls \<open>attemptReconnect\<close>, \<open>this.ws\<close> staying what it was.
\<close>

definition connectToServer :: "string option \<Rightarrow> client \<Rightarrow> effect list \<times> client" where
  "connectToServer thrown s =
     (case thrown of
        None \<Rightarrow> ([], s\<lparr>ws_open := False\<rparr>)
      | Some err \<Rightarrow>
          (case attemptReconnect s of
             (out, s') \<Rightarrow> (ConsoleError ''Failed to connect to server:'' (Some err) # out, s')))"

definition ws_onopen :: "client \<Rightarrow> effect list \<times> client" where
  "ws_onopen s = joinGame (s\<lparr>ws_open := True, reconnectAttempts := 0\<rparr>)"

definition ws_onclose :: "client \<Rightarrow> effect list \<times> client" where
  "ws_onclose s = attemptReconnect (s\<lparr>ws_open := False\<rparr>)"

section \<open>Input\<close>

text \<open>
  The argument of \<open>sendMoveCommand\<close>: \<open>{ direction }\<close> from the key handler, whose
  direction is one of the four non-empty names, or \<open>{ x, y }\<close> from the click handler.
\<close>

datatype payload = Direction string | Target rat rat

fun sendMoveCommand :: "payload \<Rightarrow> client \<Rightarrow> effect list \<times> client" where
  "sendMoveCommand (Direction d) s =
     (if \<not> ws_open s then ([], s) else ([WsSend (MoveDir d)], s))"
| "sendMoveCommand (Target tx ty) s =
     (if \<not> ws_open s then ([], s) else ([WsSend (MoveTo tx ty)], s))"

definition sendStopCommand :: "client \<Rightarrow> effect list \<times> client" where
  "sendStopCommand s = (if \<not> ws_open s then ([], s) else ([WsSend StopReq], s))"

definition keydown_direction :: "string \<Rightarrow> string option" where
  "keydown_direction key =
     (if key \<in> set [''ArrowUp'', ''w'', ''W''] then Some ''up''
      else if key \<in> set [''ArrowDown'', ''s'', ''S''] then Some ''down''
      else if key \<in> set [''ArrowLeft'', ''a'', ''A''] then Some ''left''
      else if key \<in> set [''ArrowRight'', ''d'', ''D''] then Some ''right''
      else None)"

definition keydown :: "string \<Rightarrow> client \<Rightarrow> effect list \<times> client" where
  "keydown key s =
     (case keydown_direction key of
        None \<Rightarrow> ([], s)
      | Some d \<Rightarrow> sendMoveCommand (Direction d) s)"

definition movement_keys :: "string list" where
  "movement_keys =
     [''ArrowUp'', ''ArrowDown'', ''ArrowLeft'', ''ArrowRight'',
      ''w'', ''W'', ''a'', ''A'', ''s'', ''S'', ''d'', ''D'']"

definition keyup :: "string \<Rightarrow> client \<Rightarrow> effect list \<times> client" where
  "keyup key s = (if key \<in> set movement_keys then sendStopCommand s else ([], s))"

definition blur :: "client \<Rightarrow> effect list \<times> client" where
  "blur s = sendStopCommand s"

definition click :: "rat \<Rightarrow> rat \<Rightarrow> client \<Rightarrow> effect list \<times> client" where
  "click mx my s =
     sendMoveCommand
       (Target (Math_round (mx + cam_x (camera s))) (Math_round (my + cam_y (camera s)))) s"

section \<open>Window and image events, the event loop\<close>

definition window_resize :: "int \<Rightarrow> int \<Rightarrow> client \<Rightarrow> effect list \<times> client" where
  "window_resize w h s =
     (let s1 = s\<lparr>camera := (camera s)\<lparr>cam_width := w, cam_height := h\<rparr>\<rparr>
      in case (if myPlayer s1 \<noteq> None then centerCameraOnPlayer s1 else ([], s1)) of
           (out, s2) \<Rightarrow> (out, s2\<lparr>needsRedraw := True\<rparr>))"

definition worldImage_onload :: "client \<Rightarrow> effect list \<times> client" where
  "worldImage_onload s =
     (case checkAndCenterCamera (s\<lparr>worldImageLoaded := True\<rparr>) of
        (out, s') \<Rightarrow> (out, s'\<lparr>needsRedraw := True\<rparr>))"

definition render :: "client \<Rightarrow> effect list \<times> client" where
  "render s = ([], s\<lparr>needsRedraw := False\<rparr>)"

definition blank_player :: player where
  "blank_player =
     \<lparr>p_id = [], p_x = 0, p_y = 0, p_facing = [], p_animationFrame = 0,
      p_isMoving = False, p_username = [], p_avatar = []\<rparr>"

text \<open>
  The client when the constructor returns, in a window of the given inner size: the
  fields as the constructor sets them, the camera sized by \<open>setupCanvas\<close>, the socket of
  the first \<open>connectToServer\<close> not yet open, the first \<open>render\<close> done. No actor record is
  allocated; the store's cells hold a placeholder.
\<close>

definition GameClient :: "int \<Rightarrow> int \<Rightarrow> client" where
  "GameClient innerWidth innerHeight =
     \<lparr>worldWidth = 2048, worldHeight = 2048,
      playerId = None, players = Map.empty, avatars = Map.empty, myPlayer = None,
      camera = \<lparr>cam_x = 0, cam_y = 0, cam_width = innerWidth, cam_height = innerHeight\<rparr>,
      ws_open = False, reconnectAttempts = 0, maxReconnectAttempts = 5,
      needsRedraw = False, worldImageLoaded = False, playerDataReceived = False,
      heap = (\<lambda>a. blank_player), lim = 0\<rparr>"

datatype event =
    Resize int int
  | WorldImageOnload
  | WsOnopen
  | WsOnmessage message
  | WsOnclose
  | ReconnectTimer "string option"
  | Keydown string
  | Keyup string
  | Blur
  | Click rat rat
  | RenderFrame

fun step :: "event \<Rightarrow> client \<Rightarrow> effect list \<times> client" where
  "step (Resize w h) s = window_resize w h s"
| "step WorldImageOnload s = worldImage_onload s"
| "step WsOnopen s = ws_onopen s"
| "step (WsOnmessage m) s = handleServerMessage m s"
| "step WsOnclose s = ws_onclose s"
| "step (ReconnectTimer thrown) s = connectToServer thrown s"
| "step (Keydown key) s = keydown key s"
| "step (Keyup key) s = keyup key s"
| "step Blur s = blur s"
| "step (Click mx my) s = click mx my s"
| "step RenderFrame s = render s"

fun run :: "event list \<Rightarrow> client \<Rightarrow> effect list \<times> client" where
  "run [] s = ([], s)"
| "run (e # es) s =
     (case step e s of
        (out1, s1) \<Rightarrow> (case run es s1 of (out2, s2) \<Rightarrow> (out1 @ out2, s2)))"

text \<open>
  The states the client reaches: the state the constructor leaves, with the first
  \<open>connectToServer\<close> of \<open>init\<close> returning a socket or throwing, and every state an event
  leads to from a reached one.
\<close>

inductive reachable :: "client \<Rightarrow> bool" where
  reachable_init: "reachable (GameClient w h)"
| reachable_init_thrown: "reachable (snd (connectToServer (Some err) (GameClient w h)))"
| reachable_step: "reachable s \<Longrightarrow> reachable (snd (step e s))"

section \<open>Frame resolution in \<open>drawPlayer\<close>\<close>

text \<open>\<open>xs[i]\<close> on an array without holes: \<open>undefined\<close> outside the index range.\<close>

definition js_index :: "'a list \<Rightarrow> int \<Rightarrow> 'a option" where
  "js_index xs i = (if 0 \<le> i \<and> i < int (length xs) then Some (xs ! nat i) else None)"

text \<open>
  Lines 261 to 272 of \<open>game.js\<close>: the sequence of the facing, the fallback from west to
  east with \<open>flipX\<close>, the frame at the index cut off at the last one. \<open>None\<close> is the
  \<open>return\<close> that leaves the actor undrawn.
\<close>

definition resolveFrame :: "(string \<times> image list) list \<Rightarrow> player \<Rightarrow> (image \<times> bool) option" where
  "resolveFrame byDir p =
     (let dir = (if p_facing p = [] then ''south'' else p_facing p);
          frames = map_of byDir dir;
          fallback = ((frames = None \<or> frames = Some []) \<and> dir = ''west'');
          frames' = (if fallback then map_of byDir ''east'' else frames);
          flipX = fallback
      in case frames' of
           None \<Rightarrow> None
         | Some fs \<Rightarrow>
             if fs = [] then None
             else (case js_index fs (min (p_animationFrame p) (int (length fs) - 1)) of
                     None \<Rightarrow> None
                   | Some img \<Rightarrow> Some (img, flipX)))"

text \<open>
  \<open>drawPlayer\<close> up to the call of \<open>drawImage\<close>: the image that is drawn and whether it is
  mirrored, or \<open>None\<close> when the function returns before drawing. The geometry of the
  drawing and the label are the renderer's.
\<close>

definition drawPlayer :: "client \<Rightarrow> player \<Rightarrow> (image \<times> bool) option" where
  "drawPlayer s p =
     (let screenX = p_x p - cam_x (camera s);
          screenY = p_y p - cam_y (camera s)
      in if screenX < - 64 \<or> screenX > of_int (cam_width (camera s)) + 64
            \<or> screenY < - 64 \<or> screenY > of_int (cam_height (camera s)) + 64
         then None
         else (case avatars s (p_avatar p) of
                 None \<Rightarrow> None
               | Some av \<Rightarrow>
                   (case av_loadedImagesByDir av of
                      None \<Rightarrow> None
                    | Some byDir \<Rightarrow>
                        (case resolveFrame byDir p of
                           None \<Rightarrow> None
                         | Some (img, flipX) \<Rightarrow>
                             if \<not> img_complete img then None else Some (img, flipX)))))"

section \<open>The variant of \<open>debug_game.js\<close>: frame resolution\<close>

text \<open>
  Lines 361 to 374 of \<open>debug_game.js\<close>, on the avatar's \<open>frames\<close> (data URLs by
  direction): the result is the frame data and whether the drawing is mirrored
  (\<open>player.facing === 'west'\<close>), or \<open>None\<close> for the \<open>return\<close>. A sequence that is present
  is truthy also when empty, and an empty data URL is falsy.
\<close>

definition debug_resolveFrame ::
  "(string \<times> string list) list \<Rightarrow> player \<Rightarrow> (string \<times> bool) option"
where
  "debug_resolveFrame frs p =
     (let frames = map_of frs (p_facing p);
          frames' = (if frames = None \<and> p_facing p = ''west''
                     then map_of frs ''east'' else frames)
      in case frames' of
           None \<Rightarrow> None
         | Some fs \<Rightarrow>
             (case js_index fs (p_animationFrame p) of
                None \<Rightarrow> None
              | Some frameData \<Rightarrow>
                  if frameData = [] then None
                  else Some (frameData, p_facing p = ''west'')))"

section \<open>The stand-alone client in \<open>script.js\<close> (lines 458 to 743)\<close>

text \<open>
  This client keeps actor objects as the server sent them, so an entry of its table may
  lack fields: the table's values have the type of an update. A coordinate read from an
  object without it is \<open>undefined\<close> and the viewport computed from it is \<open>NaN\<close>, which
  the viewport fields hold as \<open>None\<close>.
\<close>

record script =
  sc_myPlayerId :: "string option"
  sc_players :: "string \<rightharpoonup> player_update"
  sc_avatars :: "string \<rightharpoonup> avatar"
  sc_keysPressed :: "(string \<times> bool) list"
  sc_ws_open :: bool
  sc_canvas_width :: int
  sc_canvas_height :: int
  sc_viewport_x :: "rat option"
  sc_viewport_y :: "rat option"

definition script_init :: "int \<Rightarrow> int \<Rightarrow> script" where
  "script_init innerWidth innerHeight =
     \<lparr>sc_myPlayerId = None, sc_players = Map.empty, sc_avatars = Map.empty,
      sc_keysPressed =
        [(''ArrowUp'', False), (''ArrowDown'', False),
         (''ArrowLeft'', False), (''ArrowRight'', False)],
      sc_ws_open = False,
      sc_canvas_width = innerWidth, sc_canvas_height = innerHeight,
      sc_viewport_x = Some 0, sc_viewport_y = Some 0\<rparr>"

text \<open>A parsed actor object that carries every field.\<close>

definition fields_of :: "player \<Rightarrow> player_update" where
  "fields_of p =
     \<lparr>u_id = Some (p_id p), u_x = Some (p_x p), u_y = Some (p_y p),
      u_facing = Some (p_facing p), u_animationFrame = Some (p_animationFrame p),
      u_isMoving = Some (p_isMoving p), u_username = Some (p_username p),
      u_avatar = Some (p_avatar p)\<rparr>"

text \<open>\<open>!myPlayerId\<close> is false for a non-empty string only.\<close>

definition script_joined :: "script \<Rightarrow> bool" where
  "script_joined s = (case sc_myPlayerId s of None \<Rightarrow> False | Some i \<Rightarrow> i \<noteq> [])"

definition script_updateViewport :: "script \<Rightarrow> script" where
  "script_updateViewport s =
     (if \<not> script_joined s then s
      else (case sc_players s (key_of (sc_myPlayerId s)) of
              None \<Rightarrow> s
            | Some pl \<Rightarrow>
                s\<lparr>sc_viewport_x :=
                     map_option
                       (\<lambda>v. max 0 (min (v - of_int (sc_canvas_width s) / 2)
                                     (of_int (2048 - sc_canvas_width s))))
                       (u_x pl),
                   sc_viewport_y :=
                     map_option
                       (\<lambda>v. max 0 (min (v - of_int (sc_canvas_height s) / 2)
                                     (of_int (2048 - sc_canvas_height s))))
                       (u_y pl)\<rparr>))"

text \<open>
  \<open>ws.onmessage\<close>. \<open>Object.assign(players, message.players)\<close> copies the message's
  entries into the table: the entry of an id becomes the message's object.
\<close>

fun script_onmessage :: "message \<Rightarrow> script \<Rightarrow> effect list \<times> script" where
  "script_onmessage (JoinGame m) s =
     (if jg_success m
      then ([],
            script_updateViewport
              (s\<lparr>sc_myPlayerId := Some (jg_playerId m),
                 sc_players :=
                   sc_players s ++ map_of (map (\<lambda>(k, p). (k, fields_of p)) (jg_players m)),
                 sc_avatars := sc_avatars s ++ map_of (jg_avatars m)\<rparr>))
      else ([ConsoleError ''Failed to join game:'' (jg_error m)], s))"
| "script_onmessage (PlayerJoined p av) s =
     ([], s\<lparr>sc_players := (sc_players s)(p_id p \<mapsto> fields_of p),
            sc_avatars := (sc_avatars s)(av_name av \<mapsto> av)\<rparr>)"
| "script_onmessage (PlayersMoved upd) s =
     (let s1 = s\<lparr>sc_players := sc_players s ++ map_of upd\<rparr>
      in ([], if map_of upd (key_of (sc_myPlayerId s1)) \<noteq> None
              then script_updateViewport s1 else s1))"
| "script_onmessage (PlayerLeft i) s = ([], s\<lparr>sc_players := (sc_players s)(i := None)\<rparr>)"
| "script_onmessage (UnknownAction a) s = ([], s)"

definition script_sendMoveCommand :: "string \<Rightarrow> script \<Rightarrow> effect list" where
  "script_sendMoveCommand direction s =
     (if \<not> sc_ws_open s then [] else [WsSend (MoveDir direction)])"

definition script_sendStopCommand :: "script \<Rightarrow> effect list" where
  "script_sendStopCommand s = (if \<not> sc_ws_open s then [] else [WsSend StopReq])"

definition arrow_direction :: "string \<Rightarrow> string option" where
  "arrow_direction key =
     (if key = ''ArrowUp'' then Some ''up''
      else if key = ''ArrowDown'' then Some ''down''
      else if key = ''ArrowLeft'' then Some ''left''
      else if key = ''ArrowRight'' then Some ''right''
      else None)"

definition script_keydown :: "string \<Rightarrow> script \<Rightarrow> effect list \<times> script" where
  "script_keydown key s =
     (if \<not> script_joined s then ([], s)
      else (case arrow_direction key of
              None \<Rightarrow> ([], s)
            | Some direction \<Rightarrow>
                if map_of (sc_keysPressed s) key = Some True then ([], s)
                else (script_sendMoveCommand direction s,
                      s\<lparr>sc_keysPressed := AList.update key True (sc_keysPressed s)\<rparr>)))"

text \<open>\<open>toLowerCase\<close> on the ASCII letters, and \<open>replace\<close> of the first occurrence.\<close>

definition toLowerCase_char :: "char \<Rightarrow> char" where
  "toLowerCase_char c =
     (case map_of (zip ''ABCDEFGHIJKLMNOPQRSTUVWXYZ'' ''abcdefghijklmnopqrstuvwxyz'') c of
        None \<Rightarrow> c
      | Some l \<Rightarrow> l)"

definition toLowerCase :: "string \<Rightarrow> string" where
  "toLowerCase str = map toLowerCase_char str"

fun replace_first :: "string \<Rightarrow> string \<Rightarrow> string \<Rightarrow> string" where
  "replace_first pat rep [] = (if pat = [] then rep else [])"
| "replace_first pat rep (c # cs) =
     (if take (length pat) (c # cs) = pat then rep @ drop (length pat) (c # cs)
      else c # replace_first pat rep cs)"

text \<open>
  The \<open>keyup\<close> listener: a key that was held is released; with no key left a stop is
  sent, otherwise a move for the first key of \<open>keysPressed\<close>, in its order, still held.
\<close>

definition script_keyup :: "string \<Rightarrow> script \<Rightarrow> effect list \<times> script" where
  "script_keyup key s =
     (if \<not> script_joined s then ([], s)
      else if map_of (sc_keysPressed s) key = Some True
      then (let s1 = s\<lparr>sc_keysPressed := AList.update key False (sc_keysPressed s)\<rparr>
            in if \<not> list_ex snd (sc_keysPressed s1)
               then (script_sendStopCommand s1, s1)
               else (case find snd (sc_keysPressed s1) of
                       None \<Rightarrow> ([], s1)
                     | Some (k, pressed) \<Rightarrow>
                         (script_sendMoveCommand
                            (replace_first ''arrow'' [] (toLowerCase k)) s1, s1)))
      else ([], s))"

section \<open>Observing actor records and the store\<close>

text \<open>
  The fields of an actor record by name: the value a record holds in a field, and the
  value an update supplies for it (\<open>None\<close> when the update lacks the property).
\<close>

datatype field =
  F_id | F_x | F_y | F_facing | F_animationFrame | F_isMoving | F_username | F_avatar

datatype jsval = JString string | JNumber rat | JBool bool

fun get_field :: "player \<Rightarrow> field \<Rightarrow> jsval" where
  "get_field p F_id = JString (p_id p)"
| "get_field p F_x = JNumber (p_x p)"
| "get_field p F_y = JNumber (p_y p)"
| "get_field p F_facing = JString (p_facing p)"
| "get_field p F_animationFrame = JNumber (of_int (p_animationFrame p))"
| "get_field p F_isMoving = JBool (p_isMoving p)"
| "get_field p F_username = JString (p_username p)"
| "get_field p F_avatar = JString (p_avatar p)"

fun supplied :: "player_update \<Rightarrow> field \<Rightarrow> jsval option" where
  "supplied u F_id = map_option JString (u_id u)"
| "supplied u F_x = map_option JNumber (u_x u)"
| "supplied u F_y = map_option JNumber (u_y u)"
| "supplied u F_facing = map_option JString (u_facing u)"
| "supplied u F_animationFrame = map_option (\<lambda>k. JNumber (of_int k)) (u_animationFrame u)"
| "supplied u F_isMoving = map_option JBool (u_isMoving u)"
| "supplied u F_username = map_option JString (u_username u)"
| "supplied u F_avatar = map_option JString (u_avatar u)"

text \<open>
  What holds of the table and the store in every state the client reaches: distinct ids
  name distinct records, every record in use was allocated, and a local reference exists
  only after a join response and shares its record with no id but the local one.
\<close>

definition store_ok :: "client \<Rightarrow> bool" where
  "store_ok s \<longleftrightarrow>
     inj_on (players s) (dom (players s))
     \<and> (\<forall>i a. players s i = Some a \<longrightarrow> a < lim s)
     \<and> (\<forall>a. myPlayer s = Some a \<longrightarrow>
            a < lim s \<and> playerDataReceived s \<and> playerId s \<noteq> None
            \<and> (\<forall>i. players s i = Some a \<longrightarrow> playerId s = Some i))"






text \<open>
  Between two open events: an event that is neither an open event nor a timer callback
  whose socket constructor throws leaves the counting of close events alone. \<open>closes\<close>
  counts the close events of a run, and \<open>closes_with_timers n\<close> is the run of \<open>n\<close> close
  events, each followed by its timer's callback.
\<close>

fun keeps_counting :: "event \<Rightarrow> bool" where
  "keeps_counting WsOnopen = False"
| "keeps_counting (ReconnectTimer (Some err)) = False"
| "keeps_counting e = True"

definition closes :: "event list \<Rightarrow> nat" where
  "closes es = length (filter (\<lambda>e. e = WsOnclose) es)"

definition closes_with_timers :: "nat \<Rightarrow> event list" where
  "closes_with_timers n = concat (replicate n [WsOnclose, ReconnectTimer None])"

text \<open>The updates of a sequence of \<open>players_moved\<close> messages, as events.\<close>

definition moved_events :: "(string \<times> player_update) list list \<Rightarrow> event list" where
  "moved_events upds = map (\<lambda>upd. WsOnmessage (PlayersMoved upd)) upds"

section \<open>Concrete inputs\<close>

text \<open>
  The inputs of the scenarios: an actor at a position, an avatar with frames for east and
  south only, and the accepted join response that carries them for the local id \<open>p1\<close>.
\<close>

definition scenario_player :: "string \<Rightarrow> rat \<Rightarrow> rat \<Rightarrow> player" where
  "scenario_player i px py =
     \<lparr>p_id = i, p_x = px, p_y = py, p_facing = ''west'', p_animationFrame = 7,
      p_isMoving = False, p_username = ''Blankey'', p_avatar = ''knight''\<rparr>"

definition scenario_avatar :: avatar where
  "scenario_avatar =
     \<lparr>av_name = ''knight'',
      av_frames = [(''east'', [''e0'', ''e1'', ''e2'']), (''south'', [''s0''])],
      av_loadedImagesByDir = None\<rparr>"

definition scenario_join :: "rat \<Rightarrow> rat \<Rightarrow> join_game_msg" where
  "scenario_join px py =
     \<lparr>jg_success = True, jg_playerId = ''p1'',
      jg_players = [(''p1'', scenario_player ''p1'' px py)],
      jg_avatars = [(''knight'', scenario_avatar)],
      jg_error = None\<rparr>"

text \<open>An update that carries a position and nothing else.\<close>

definition move_to :: "rat \<Rightarrow> rat \<Rightarrow> player_update" where
  "move_to px py =
     \<lparr>u_id = None, u_x = Some px, u_y = Some py, u_facing = None,
      u_animationFrame = None, u_isMoving = None, u_username = None, u_avatar = None\<rparr>"

text \<open>The client of \<open>script.js\<close> after the same join response.\<close>

definition script_scenario :: script where
  "script_scenario =
     snd (script_onmessage (JoinGame (scenario_join 100 100)) (script_init 800 600))"

text \<open>
  The client of \<open>script.js\<close> with an open socket after the up arrow and then the right
  arrow were pressed, and the client of \<open>game.js\<close> after its socket opened and the same
  two keys were pressed.
\<close>

definition script_two_held :: script where
  "script_two_held =
     snd (script_keydown ''ArrowRight''
            (snd (script_keydown ''ArrowUp'' (script_scenario\<lparr>sc_ws_open := True\<rparr>))))"

definition game_two_held :: client where
  "game_two_held =
     snd (run [WsOnopen, Keydown ''ArrowUp'', Keydown ''ArrowRight''] (GameClient 800 600))"

text \<open>The client after the join response, in a window of 800 by 600.\<close>

definition scenario_joined :: "rat \<Rightarrow> rat \<Rightarrow> client" where
  "scenario_joined px py =
     snd (handleServerMessage (JoinGame (scenario_join px py)) (GameClient 800 600))"


section \<open>Camera bounds\<close>

lemma floor_rat_numeral_div [simp]:
  "\<lfloor>(numeral a :: rat) / numeral b\<rfloor> = numeral a div numeral b"
  using floor_divide_of_int_eq [of "numeral a" "numeral b", where ?'a = rat] by simp

lemma floor_rat_neg_numeral_div [simp]:
  "\<lfloor>- ((numeral a :: rat) / numeral b)\<rfloor> = - numeral a div numeral b"
  using floor_divide_of_int_eq [of "- numeral a" "numeral b", where ?'a = rat] by simp

lemma floor_rat_one_div [simp]:
  "\<lfloor>(1 :: rat) / numeral b\<rfloor> = 1 div numeral b"
  using floor_divide_of_int_eq [of 1 "numeral b", where ?'a = rat] by simp

lemma Math_round_clamp:
  fixes v :: rat and b :: int
  assumes "0 \<le> v" and "v \<le> max 0 (of_int b)"
  shows "0 \<le> Math_round v \<and> Math_round v \<le> max 0 (of_int b)"
proof -
  have lo: "(0::int) \<le> \<lfloor>v + 1 / 2\<rfloor>"
    using assms(1) by (simp add: le_floor_iff)
  have "v + 1 / 2 < of_int (max 0 b) + 1"
    using assms(2) by (simp add: max_def split: if_splits)
  then have hi: "\<lfloor>v + 1 / 2\<rfloor> \<le> max 0 b"
    by (simp only: floor_le_iff)
  have "(of_int \<lfloor>v + 1 / 2\<rfloor> :: rat) \<le> of_int (max 0 b)"
    using hi by (simp only: of_int_le_iff)
  then show ?thesis
    using lo by (simp add: Math_round_def max_def split: if_splits)
qed

lemma clamp_range:
  fixes i :: rat and b :: int
  shows "0 \<le> max 0 (min i (of_int b)) \<and> max 0 (min i (of_int b)) \<le> max 0 (of_int b)"
  by (simp add: max_def min_def)

lemma clamp_zero:
  fixes i :: rat and b :: int
  assumes "b < 0"
  shows "Math_round (max 0 (min i (of_int b))) = 0"
proof -
  have "max 0 (min i (of_int b)) = (0::rat)"
    using assms by (simp add: max_def min_def)
  then show ?thesis by (simp add: Math_round_def)
qed

text \<open>
  C1. Whenever \<open>centerCameraOnPlayer\<close> runs with a local actor, the camera it leaves
  satisfies \<open>0 \<le> camera.x \<le> max(0, worldWidth - camera.width)\<close> and the same on the y
  axis, for every actor position, every viewport size and every world size; on an axis
  where the viewport exceeds the world the camera coordinate is 0.
\<close>

theorem centerCameraOnPlayer_bounds:
  assumes "myPlayer s = Some a"
  shows "0 \<le> cam_x (camera (snd (centerCameraOnPlayer s)))
       \<and> cam_x (camera (snd (centerCameraOnPlayer s)))
           \<le> max 0 (of_int (worldWidth s - cam_width (camera s)))
       \<and> 0 \<le> cam_y (camera (snd (centerCameraOnPlayer s)))
       \<and> cam_y (camera (snd (centerCameraOnPlayer s)))
           \<le> max 0 (of_int (worldHeight s - cam_height (camera s)))
       \<and> (worldWidth s < cam_width (camera s)
            \<longrightarrow> cam_x (camera (snd (centerCameraOnPlayer s))) = 0)
       \<and> (worldHeight s < cam_height (camera s)
            \<longrightarrow> cam_y (camera (snd (centerCameraOnPlayer s))) = 0)"
proof -
  let ?ix = "p_x (heap s a) - of_int (cam_width (camera s)) / 2"
  let ?iy = "p_y (heap s a) - of_int (cam_height (camera s)) / 2"
  let ?bx = "worldWidth s - cam_width (camera s)"
  let ?by = "worldHeight s - cam_height (camera s)"
  have x: "cam_x (camera (snd (centerCameraOnPlayer s)))
             = Math_round (max 0 (min ?ix (of_int ?bx)))"
    using assms by (simp add: centerCameraOnPlayer_def Let_def)
  have y: "cam_y (camera (snd (centerCameraOnPlayer s)))
             = Math_round (max 0 (min ?iy (of_int ?by)))"
    using assms by (simp add: centerCameraOnPlayer_def Let_def)
  have bnd_x: "0 \<le> Math_round (max 0 (min ?ix (of_int ?bx)))
          \<and> Math_round (max 0 (min ?ix (of_int ?bx))) \<le> max 0 (of_int ?bx)"
    using clamp_range [of ?ix ?bx] by (intro Math_round_clamp) simp_all
  have bnd_y: "0 \<le> Math_round (max 0 (min ?iy (of_int ?by)))
          \<and> Math_round (max 0 (min ?iy (of_int ?by))) \<le> max 0 (of_int ?by)"
    using clamp_range [of ?iy ?by] by (intro Math_round_clamp) simp_all
  have zx: "worldWidth s < cam_width (camera s)
              \<longrightarrow> Math_round (max 0 (min ?ix (of_int ?bx))) = 0"
    using clamp_zero [of ?bx ?ix] by simp
  have zy: "worldHeight s < cam_height (camera s)
              \<longrightarrow> Math_round (max 0 (min ?iy (of_int ?by))) = 0"
    using clamp_zero [of ?by ?iy] by simp
  show ?thesis
    unfolding x y using bnd_x bnd_y zx zy by blast
qed

lemma scenario_joined_fields:
  "worldWidth (scenario_joined px py) = 2048"
  "worldHeight (scenario_joined px py) = 2048"
  "cam_width (camera (scenario_joined px py)) = 800"
  "cam_height (camera (scenario_joined px py)) = 600"
  "cam_x (camera (scenario_joined px py)) = 0"
  "cam_y (camera (scenario_joined px py)) = 0"
  "playerId (scenario_joined px py) = Some ''p1''"
  "players (scenario_joined px py) ''p1'' = Some 0"
  "myPlayer (scenario_joined px py) = Some 0"
  "heap (scenario_joined px py) 0 = scenario_player ''p1'' px py"
  "lim (scenario_joined px py) = 1"
  "playerDataReceived (scenario_joined px py)"
  "\<not> worldImageLoaded (scenario_joined px py)"
  "\<not> ws_open (scenario_joined px py)"
  by (simp_all add: scenario_joined_def scenario_join_def handleJoinGameSuccess_def
        GameClient_def checkAndCenterCamera_def preloadAvatars_def)

lemma scenario_player_fields:
  "p_x (scenario_player i px py) = px"
  "p_y (scenario_player i px py) = py"
  "p_id (scenario_player i px py) = i"
  "p_facing (scenario_player i px py) = ''west''"
  "p_animationFrame (scenario_player i px py) = 7"
  "p_username (scenario_player i px py) = ''Blankey''"
  "p_avatar (scenario_player i px py) = ''knight''"
  by (simp_all add: scenario_player_def)

theorem centerCameraOnPlayer_bounds_witness:
  "myPlayer (scenario_joined 2040 10) = Some 0
   \<and> 0 \<le> cam_x (camera (snd (centerCameraOnPlayer (scenario_joined 2040 10))))
   \<and> cam_x (camera (snd (centerCameraOnPlayer (scenario_joined 2040 10)))) \<le> 1248
   \<and> 0 \<le> cam_y (camera (snd (centerCameraOnPlayer (scenario_joined 2040 10))))
   \<and> cam_y (camera (snd (centerCameraOnPlayer (scenario_joined 2040 10)))) \<le> 1448
   \<and> myPlayer ((scenario_joined 5 5)\<lparr>worldWidth := 640, worldHeight := 480\<rparr>) = Some 0
   \<and> worldWidth ((scenario_joined 5 5)\<lparr>worldWidth := 640, worldHeight := 480\<rparr>)
       < cam_width (camera ((scenario_joined 5 5)\<lparr>worldWidth := 640, worldHeight := 480\<rparr>))
   \<and> worldHeight ((scenario_joined 5 5)\<lparr>worldWidth := 640, worldHeight := 480\<rparr>)
       < cam_height (camera ((scenario_joined 5 5)\<lparr>worldWidth := 640, worldHeight := 480\<rparr>))
   \<and> cam_x (camera (snd (centerCameraOnPlayer
              ((scenario_joined 5 5)\<lparr>worldWidth := 640, worldHeight := 480\<rparr>)))) = 0
   \<and> cam_y (camera (snd (centerCameraOnPlayer
              ((scenario_joined 5 5)\<lparr>worldWidth := 640, worldHeight := 480\<rparr>)))) = 0"
proof -
  have a: "myPlayer (scenario_joined 2040 10) = Some 0"
    by (simp add: scenario_joined_fields)
  have b: "myPlayer ((scenario_joined 5 5)\<lparr>worldWidth := 640, worldHeight := 480\<rparr>) = Some 0"
    by (simp add: scenario_joined_fields)
  have w: "worldWidth (scenario_joined 2040 10) = 2048"
          "worldHeight (scenario_joined 2040 10) = 2048"
          "cam_width (camera (scenario_joined 2040 10)) = 800"
          "cam_height (camera (scenario_joined 2040 10)) = 600"
          "cam_width (camera (scenario_joined 5 5)) = 800"
          "cam_height (camera (scenario_joined 5 5)) = 600"
    by (simp_all add: scenario_joined_fields)
  show ?thesis
    using a b centerCameraOnPlayer_bounds [OF a] centerCameraOnPlayer_bounds [OF b]
    by (simp add: w)
qed

text \<open>
  C8. With a world of 2048 by 2048 and a viewport of 800 by 600, centering on an actor at
  (2040, 10) leaves the camera at exactly (1248, 0).
\<close>

theorem centerCameraOnPlayer_scenario:
  assumes "worldWidth s = 2048" and "worldHeight s = 2048"
    and "cam_width (camera s) = 800" and "cam_height (camera s) = 600"
    and "myPlayer s = Some a" and "p_x (heap s a) = 2040" and "p_y (heap s a) = 10"
  shows "cam_x (camera (snd (centerCameraOnPlayer s))) = 1248
       \<and> cam_y (camera (snd (centerCameraOnPlayer s))) = 0
       \<and> fst (centerCameraOnPlayer s) = [CenterCamera]"
  using assms by (simp add: centerCameraOnPlayer_def Let_def Math_round_def)

theorem centerCameraOnPlayer_scenario_witness:
  "worldWidth (scenario_joined 2040 10) = 2048
   \<and> worldHeight (scenario_joined 2040 10) = 2048
   \<and> cam_width (camera (scenario_joined 2040 10)) = 800
   \<and> cam_height (camera (scenario_joined 2040 10)) = 600
   \<and> myPlayer (scenario_joined 2040 10) = Some 0
   \<and> p_x (heap (scenario_joined 2040 10) 0) = 2040
   \<and> p_y (heap (scenario_joined 2040 10) 0) = 10
   \<and> cam_x (camera (snd (centerCameraOnPlayer (scenario_joined 2040 10)))) = 1248
   \<and> cam_y (camera (snd (centerCameraOnPlayer (scenario_joined 2040 10)))) = 0"
proof -
  have h: "worldWidth (scenario_joined 2040 10) = 2048"
          "worldHeight (scenario_joined 2040 10) = 2048"
          "cam_width (camera (scenario_joined 2040 10)) = 800"
          "cam_height (camera (scenario_joined 2040 10)) = 600"
          "myPlayer (scenario_joined 2040 10) = Some 0"
          "p_x (heap (scenario_joined 2040 10) 0) = 2040"
          "p_y (heap (scenario_joined 2040 10) 0) = 10"
    by (simp_all add: scenario_joined_fields scenario_player_fields)
  show ?thesis
    using h centerCameraOnPlayer_scenario [OF h] by simp
qed

section \<open>Join rejection\<close>

text \<open>
  C9. A join response with \<open>success = false\<close> leaves the whole client state as it was:
  the actor table, the store of actor records, the asset table, the local id and the
  local reference are untouched, and the rejection reason of the message is written to
  the error console.
\<close>

theorem join_rejected_state_unchanged:
  assumes "\<not> jg_success m"
  shows "handleServerMessage (JoinGame m) s
           = ([ConsoleError ''Join game failed:'' (jg_error m)], s)
       \<and> players (snd (handleServerMessage (JoinGame m) s)) = players s
       \<and> heap (snd (handleServerMessage (JoinGame m) s)) = heap s
       \<and> avatars (snd (handleServerMessage (JoinGame m) s)) = avatars s
       \<and> playerId (snd (handleServerMessage (JoinGame m) s)) = playerId s
       \<and> myPlayer (snd (handleServerMessage (JoinGame m) s)) = myPlayer s"
  using assms by simp

theorem join_rejected_state_unchanged_witness:
  "\<not> jg_success ((scenario_join 100 100)\<lparr>jg_success := False, jg_error := Some ''full''\<rparr>)
   \<and> handleServerMessage
        (JoinGame ((scenario_join 100 100)\<lparr>jg_success := False, jg_error := Some ''full''\<rparr>))
        (GameClient 800 600)
       = ([ConsoleError ''Join game failed:'' (Some ''full'')], GameClient 800 600)
   \<and> myPlayer (snd (handleServerMessage
        (JoinGame ((scenario_join 100 100)\<lparr>jg_success := False, jg_error := Some ''full''\<rparr>))
        (GameClient 800 600))) = None"
proof -
  have h: "\<not> jg_success ((scenario_join 100 100)\<lparr>jg_success := False, jg_error := Some ''full''\<rparr>)"
    by simp
  have n: "myPlayer (GameClient 800 600) = None"
    by (simp add: GameClient_def)
  show ?thesis
    using h n join_rejected_state_unchanged [OF h, of "GameClient 800 600"]
    by (simp del: handleServerMessage.simps)
qed

section \<open>Reconnection\<close>

lemma run_append:
  "run (es @ fs) s =
     (case run es s of (out1, s1) \<Rightarrow> (case run fs s1 of (out2, s2) \<Rightarrow> (out1 @ out2, s2)))"
  by (induction es arbitrary: s) (auto split: prod.splits)

lemma counters_center:
  "reconnectAttempts (snd (centerCameraOnPlayer s)) = reconnectAttempts s"
  "maxReconnectAttempts (snd (centerCameraOnPlayer s)) = maxReconnectAttempts s"
  "reconnectAttempts (snd (checkAndCenterCamera s)) = reconnectAttempts s"
  "maxReconnectAttempts (snd (checkAndCenterCamera s)) = maxReconnectAttempts s"
  by (simp_all add: checkAndCenterCamera_def centerCameraOnPlayer_def Let_def
        split: option.splits)

lemma counters_message:
  "reconnectAttempts (snd (handleServerMessage m s)) = reconnectAttempts s"
  "maxReconnectAttempts (snd (handleServerMessage m s)) = maxReconnectAttempts s"
  by (cases m;
      simp add: handleJoinGameSuccess_def handlePlayerJoined_def handlePlayersMoved_def
        handlePlayerLeft_def preloadAvatars_def Let_def case_prod_beta counters_center
        split: option.splits)+



lemma counters_step:
  assumes "keeps_counting e"
  shows "reconnectAttempts (snd (step e s))
           = (if e = WsOnclose \<and> reconnectAttempts s < maxReconnectAttempts s
              then reconnectAttempts s + 1 else reconnectAttempts s)
       \<and> maxReconnectAttempts (snd (step e s)) = maxReconnectAttempts s"
proof (cases e)
  case (Resize w h)
  then show ?thesis
    by (simp add: window_resize_def Let_def case_prod_beta counters_center)
next
  case WorldImageOnload
  then show ?thesis
    by (simp add: worldImage_onload_def case_prod_beta counters_center)
next
  case WsOnopen
  then show ?thesis using assms by simp
next
  case (WsOnmessage m)
  then show ?thesis by (simp add: counters_message)
next
  case WsOnclose
  then show ?thesis by (simp add: ws_onclose_def attemptReconnect_def)
next
  case (ReconnectTimer thrown)
  then show ?thesis
    using assms by (cases thrown) (simp_all add: connectToServer_def)
next
  case (Keydown k)
  then show ?thesis by (simp add: keydown_def split: option.splits)
next
  case (Keyup k)
  then show ?thesis by (simp add: keyup_def sendStopCommand_def)
next
  case Blur
  then show ?thesis by (simp add: blur_def sendStopCommand_def)
next
  case (Click mx my)
  then show ?thesis by (simp add: click_def)
next
  case RenderFrame
  then show ?thesis by (simp add: render_def)
qed


lemma closes_Cons:
  "closes (e # es) = (if e = WsOnclose then 1 else 0) + closes es"
  by (simp add: closes_def)

lemma run_counter:
  assumes "\<forall>e \<in> set es. keeps_counting e"
    and "reconnectAttempts s \<le> maxReconnectAttempts s"
  shows "reconnectAttempts (snd (run es s))
           = min (reconnectAttempts s + closes es) (maxReconnectAttempts s)
       \<and> maxReconnectAttempts (snd (run es s)) = maxReconnectAttempts s"
  using assms
proof (induction es arbitrary: s)
  case Nil
  then show ?case by (simp add: closes_def)
next
  case (Cons e es)
  let ?s1 = "snd (step e s)"
  have k: "keeps_counting e" and rest: "\<forall>e \<in> set es. keeps_counting e"
    using Cons.prems(1) by simp_all
  note c = counters_step [OF k, of s]
  have m1: "maxReconnectAttempts ?s1 = maxReconnectAttempts s"
    using c by blast
  have c1: "reconnectAttempts ?s1
              = (if e = WsOnclose \<and> reconnectAttempts s < maxReconnectAttempts s
                 then reconnectAttempts s + 1 else reconnectAttempts s)"
    using c by blast
  have le: "reconnectAttempts ?s1 \<le> maxReconnectAttempts ?s1"
    unfolding m1 c1 using Cons.prems(2) by simp
  note IH = Cons.IH [OF rest le]
  have r: "snd (run (e # es) s) = snd (run es ?s1)"
    by (simp add: case_prod_beta)
  have a: "min (reconnectAttempts ?s1 + closes es) (maxReconnectAttempts s)
             = min (reconnectAttempts s + closes (e # es)) (maxReconnectAttempts s)"
    unfolding c1 closes_Cons using Cons.prems(2) by (simp add: min_def)
  show ?case
    unfolding r using IH a m1 by simp
qed


lemma closes_with_timers_6:
  "closes_with_timers 6
     = [WsOnclose, ReconnectTimer None, WsOnclose, ReconnectTimer None,
        WsOnclose, ReconnectTimer None, WsOnclose, ReconnectTimer None,
        WsOnclose, ReconnectTimer None, WsOnclose, ReconnectTimer None]"
  "closes_with_timers 5
     = [WsOnclose, ReconnectTimer None, WsOnclose, ReconnectTimer None,
        WsOnclose, ReconnectTimer None, WsOnclose, ReconnectTimer None,
        WsOnclose, ReconnectTimer None]"
  "closes_with_timers 4
     = [WsOnclose, ReconnectTimer None, WsOnclose, ReconnectTimer None,
        WsOnclose, ReconnectTimer None, WsOnclose, ReconnectTimer None]"
  by (simp_all add: closes_with_timers_def numeral_eq_Suc)

text \<open>
  C6 (as amended). Count the close events of a run that starts with the attempt counter
  at zero and holds no open event and no timer callback whose socket constructor throws;
  the timer callbacks that return a socket, and every other event, may stand between the
  close events. The attempt counter is that count, up to the maximum 5. The close event
  that comes as number \<open>N\<close> schedules one new connection attempt with a delay of
  \<open>2000 \<times> N\<close> milliseconds when \<open>N \<le> 5\<close>, so the delays strictly increase; from the
  sixth on a close event schedules nothing, leaves the counter at 5 and writes the
  terminal condition to the error console. Six close events, each followed by its timer's
  callback, give the timers 2000, 4000, 6000, 8000 and 10000 and then the report. A timer
  callback whose constructor throws logs the error and counts as an attempt of its own.
  An open event resets the counter to zero.
\<close>

theorem reconnect_backoff:
  assumes "reconnectAttempts s = 0" and "maxReconnectAttempts s = 5"
    and "\<forall>e \<in> set es. keeps_counting e"
  shows "reconnectAttempts (snd (run es s)) = min (closes es) 5
       \<and> (closes es < 5 \<longrightarrow>
            fst (step WsOnclose (snd (run es s))) = [SetTimeout (2000 * (closes es + 1))]
          \<and> reconnectAttempts (snd (step WsOnclose (snd (run es s)))) = closes es + 1
          \<and> 2000 * closes es < 2000 * (closes es + 1))
       \<and> (5 \<le> closes es \<longrightarrow>
            fst (step WsOnclose (snd (run es s)))
              = [ConsoleError ''Max reconnection attempts reached'' None]
          \<and> reconnectAttempts (snd (step WsOnclose (snd (run es s)))) = 5)
       \<and> fst (run (closes_with_timers 6) s)
           = [SetTimeout 2000, SetTimeout 4000, SetTimeout 6000, SetTimeout 8000,
              SetTimeout 10000, ConsoleError ''Max reconnection attempts reached'' None]
       \<and> (\<forall>err t. step (ReconnectTimer (Some err)) t
              = (ConsoleError ''Failed to connect to server:'' (Some err)
                   # fst (attemptReconnect t),
                 snd (attemptReconnect t)))
       \<and> (\<forall>t. reconnectAttempts (snd (step WsOnopen t)) = 0)"
proof -
  let ?t = "snd (run es s)"
  have le: "reconnectAttempts s \<le> maxReconnectAttempts s"
    using assms(1) by simp
  have c: "reconnectAttempts ?t = min (closes es) 5" and m: "maxReconnectAttempts ?t = 5"
    using run_counter [OF assms(3) le] assms(1) assms(2) by simp_all
  have below: "fst (step WsOnclose ?t) = [SetTimeout (2000 * (closes es + 1))]
          \<and> reconnectAttempts (snd (step WsOnclose ?t)) = closes es + 1
          \<and> 2000 * closes es < 2000 * (closes es + 1)" if "closes es < 5"
  proof -
    have "reconnectAttempts ?t = closes es" using c that by simp
    then show ?thesis
      using m that by (simp add: ws_onclose_def attemptReconnect_def)
  qed
  have top: "fst (step WsOnclose ?t) = [ConsoleError ''Max reconnection attempts reached'' None]
          \<and> reconnectAttempts (snd (step WsOnclose ?t)) = 5" if "5 \<le> closes es"
  proof -
    have "reconnectAttempts ?t = 5" using c that by simp
    then show ?thesis
      using m by (simp add: ws_onclose_def attemptReconnect_def)
  qed
  have trace: "fst (run (closes_with_timers 6) s)
           = [SetTimeout 2000, SetTimeout 4000, SetTimeout 6000, SetTimeout 8000,
              SetTimeout 10000, ConsoleError ''Max reconnection attempts reached'' None]"
    unfolding closes_with_timers_6 using assms(1) assms(2)
    by (simp add: ws_onclose_def attemptReconnect_def connectToServer_def)
  have thrown: "step (ReconnectTimer (Some err)) t
              = (ConsoleError ''Failed to connect to server:'' (Some err)
                   # fst (attemptReconnect t),
                 snd (attemptReconnect t))" for err t
    by (simp add: connectToServer_def case_prod_beta)
  have opened: "reconnectAttempts (snd (step WsOnopen t)) = 0" for t
    by (simp add: ws_onopen_def joinGame_def)
  show ?thesis
    using c below top trace thrown opened by blast
qed

theorem reconnect_backoff_witness:
  "reconnectAttempts (GameClient 800 600) = 0
   \<and> maxReconnectAttempts (GameClient 800 600) = 5
   \<and> keeps_counting WsOnclose \<and> keeps_counting (ReconnectTimer None)
   \<and> keeps_counting (Keydown ''w'')
   \<and> closes [WsOnclose, ReconnectTimer None, Keydown ''w'', WsOnclose, ReconnectTimer None] = 2
   \<and> fst (step WsOnclose
             (snd (run [WsOnclose, ReconnectTimer None, Keydown ''w'', WsOnclose,
                        ReconnectTimer None] (GameClient 800 600))))
       = [SetTimeout 6000]
   \<and> closes (closes_with_timers 5) = 5
   \<and> fst (step WsOnclose (snd (run (closes_with_timers 5) (GameClient 800 600))))
       = [ConsoleError ''Max reconnection attempts reached'' None]
   \<and> reconnectAttempts
        (snd (step WsOnclose (snd (run (closes_with_timers 5) (GameClient 800 600))))) = 5"
proof -
  let ?es = "[WsOnclose, ReconnectTimer None, Keydown ''w'', WsOnclose, ReconnectTimer None]"
  have h0: "reconnectAttempts (GameClient 800 600) = 0"
    and h5: "maxReconnectAttempts (GameClient 800 600) = 5"
    by (simp_all add: GameClient_def)
  have k: "keeps_counting WsOnclose" "keeps_counting (ReconnectTimer None)"
    "keeps_counting (Keydown ''w'')"
    by simp_all
  have a1: "\<forall>e \<in> set ?es. keeps_counting e" by simp
  have a2: "\<forall>e \<in> set (closes_with_timers 5). keeps_counting e"
    by (simp add: closes_with_timers_6)
  have n1: "closes ?es = 2" by (simp add: closes_def)
  have n2: "closes (closes_with_timers 5) = 5"
    by (simp add: closes_with_timers_6 closes_def)
  have r1: "fst (step WsOnclose (snd (run ?es (GameClient 800 600)))) = [SetTimeout 6000]"
    using reconnect_backoff [OF h0 h5 a1] n1 by simp
  have r2: "fst (step WsOnclose (snd (run (closes_with_timers 5) (GameClient 800 600))))
              = [ConsoleError ''Max reconnection attempts reached'' None]
          \<and> reconnectAttempts
               (snd (step WsOnclose (snd (run (closes_with_timers 5) (GameClient 800 600))))) = 5"
    using reconnect_backoff [OF h0 h5 a2] n2 by simp
  show ?thesis
    using h0 h5 k n1 n2 r1 r2 by blast
qed

text \<open>
  The fifth close event in a row still schedules an attempt, with the longest delay, and
  reports nothing; the report comes with the sixth.
\<close>

theorem fifth_close_schedules:
  "reconnectAttempts (snd (run (closes_with_timers 4) (GameClient 800 600))) = 4
   \<and> fst (step WsOnclose (snd (run (closes_with_timers 4) (GameClient 800 600))))
       = [SetTimeout 10000]
   \<and> reconnectAttempts
        (snd (step WsOnclose (snd (run (closes_with_timers 4) (GameClient 800 600))))) = 5
   \<and> fst (step WsOnclose (snd (run (closes_with_timers 5) (GameClient 800 600))))
       = [ConsoleError ''Max reconnection attempts reached'' None]"
  unfolding closes_with_timers_6
  by (simp add: GameClient_def ws_onclose_def attemptReconnect_def connectToServer_def)


section \<open>The actor table and the store\<close>

lemma get_field_Object_assign:
  "get_field (Object_assign p u) f = (case supplied u f of None \<Rightarrow> get_field p f | Some v \<Rightarrow> v)"
  by (cases f) (simp_all add: Object_assign_def split: option.splits)

lemma Object_assign_idem: "Object_assign (Object_assign p u) u = Object_assign p u"
  by (simp add: Object_assign_def split: option.splits)

lemma alloc_players_props:
  "alloc_players ps n h = (tbl, n', h') \<Longrightarrow>
     n \<le> n'
     \<and> (\<forall>i a. tbl i = Some a \<longrightarrow> n \<le> a \<and> a < n' \<and> map_of ps i = Some (h' a))
     \<and> inj_on tbl (dom tbl)
     \<and> (\<forall>a<n. h' a = h a)
     \<and> dom tbl = fst ` set ps"
proof (induction ps arbitrary: tbl n' h')
  case Nil
  then show ?case by auto
next
  case (Cons kp ps)
  obtain k p where kp: "kp = (k, p)" by (cases kp)
  obtain t0 n0 h0 where r: "alloc_players ps n h = (t0, n0, h0)"
    by (cases "alloc_players ps n h")
  note IH = Cons.IH [OF r]
  have e: "tbl = t0(k \<mapsto> n0)" "n' = Suc n0" "h' = h0(n0 := p)"
    using Cons.prems kp r by simp_all
  have 1: "n \<le> n'" using IH e by simp
  have 2: "\<forall>i a. tbl i = Some a \<longrightarrow> n \<le> a \<and> a < n' \<and> map_of (kp # ps) i = Some (h' a)"
    using IH unfolding e kp by (fastforce simp: less_Suc_eq split: if_splits)
  have 3: "inj_on tbl (dom tbl)"
    unfolding e using IH by (fastforce simp: inj_on_def dom_def split: if_splits)
  have 4: "\<forall>a<n. h' a = h a"
    using IH unfolding e by auto
  have 5: "dom tbl = fst ` set (kp # ps)"
    using IH unfolding e kp by auto
  show ?case using 1 2 3 4 5 by blast
qed


lemma centerCameraOnPlayer_frame:
  "players (snd (centerCameraOnPlayer s)) = players s"
  "heap (snd (centerCameraOnPlayer s)) = heap s"
  "lim (snd (centerCameraOnPlayer s)) = lim s"
  "myPlayer (snd (centerCameraOnPlayer s)) = myPlayer s"
  "playerId (snd (centerCameraOnPlayer s)) = playerId s"
  "avatars (snd (centerCameraOnPlayer s)) = avatars s"
  "playerDataReceived (snd (centerCameraOnPlayer s)) = playerDataReceived s"
  "worldImageLoaded (snd (centerCameraOnPlayer s)) = worldImageLoaded s"
  by (simp_all add: centerCameraOnPlayer_def Let_def split: option.splits)

lemma checkAndCenterCamera_frame:
  "players (snd (checkAndCenterCamera s)) = players s"
  "heap (snd (checkAndCenterCamera s)) = heap s"
  "lim (snd (checkAndCenterCamera s)) = lim s"
  "myPlayer (snd (checkAndCenterCamera s)) = myPlayer s"
  "playerId (snd (checkAndCenterCamera s)) = playerId s"
  "avatars (snd (checkAndCenterCamera s)) = avatars s"
  "playerDataReceived (snd (checkAndCenterCamera s)) = playerDataReceived s"
  "worldImageLoaded (snd (checkAndCenterCamera s)) = worldImageLoaded s"
  by (simp_all add: checkAndCenterCamera_def centerCameraOnPlayer_frame)

lemma assign_moved_other:
  "\<forall>k\<in>set ks. tbl k \<noteq> Some a \<Longrightarrow> assign_moved tbl upd ks h a = h a"
  by (induction ks arbitrary: h) (auto split: option.splits)

lemma assign_moved_at:
  assumes "inj_on tbl (dom tbl)" and "tbl i = Some a"
  shows "assign_moved tbl upd ks h a
           = (if i \<in> set ks
              then (case map_of upd i of None \<Rightarrow> h a | Some u \<Rightarrow> Object_assign (h a) u)
              else h a)"
proof (induction ks arbitrary: h)
  case Nil
  then show ?case by simp
next
  case (Cons k ks)
  show ?case
  proof (cases "k = i")
    case True
    then show ?thesis
      using assms(2) Cons.IH
      by (simp add: Object_assign_idem split: option.splits)
  next
    case False
    have "tbl k \<noteq> Some a"
      using assms False by (auto simp: inj_on_def dom_def)
    then show ?thesis
      using False Cons.IH by (simp split: option.splits)
  qed
qed

lemma handlePlayersMoved_frame:
  "players (snd (handlePlayersMoved upd s)) = players s"
  "lim (snd (handlePlayersMoved upd s)) = lim s"
  "myPlayer (snd (handlePlayersMoved upd s)) = myPlayer s"
  "playerId (snd (handlePlayersMoved upd s)) = playerId s"
  "avatars (snd (handlePlayersMoved upd s)) = avatars s"
  "playerDataReceived (snd (handlePlayersMoved upd s)) = playerDataReceived s"
  "worldImageLoaded (snd (handlePlayersMoved upd s)) = worldImageLoaded s"
  by (simp_all add: handlePlayersMoved_def Let_def case_prod_beta centerCameraOnPlayer_frame
        split: option.splits)


lemma map_of_keys: "i \<in> fst ` set upd \<longleftrightarrow> map_of upd i \<noteq> None"
  by (simp add: map_of_eq_None_iff)

lemma handlePlayersMoved_heap_entry:
  assumes "store_ok s" and "players s i = Some a"
  shows "heap (snd (handlePlayersMoved upd s)) a
           = (case map_of upd i of None \<Rightarrow> heap s a | Some u \<Rightarrow> Object_assign (heap s a) u)"
proof -
  let ?h1 = "assign_moved (players s) upd (map fst upd) (heap s)"
  have inj: "inj_on (players s) (dom (players s))"
    using assms(1) by (simp add: store_ok_def)
  have h1: "?h1 a = (case map_of upd i of None \<Rightarrow> heap s a | Some u \<Rightarrow> Object_assign (heap s a) u)"
    using assign_moved_at [OF inj assms(2), of upd "map fst upd" "heap s"]
    by (auto simp: map_of_keys split: option.splits)
  show ?thesis
  proof (cases "myPlayer s")
    case None
    then show ?thesis
      using h1 by (simp add: handlePlayersMoved_def Let_def)
  next
    case (Some b)
    show ?thesis
    proof (cases "map_of upd (key_of (playerId s))")
      case None
      then show ?thesis
        using h1 Some by (simp add: handlePlayersMoved_def Let_def)
    next
      case (Some u')
      have heap': "heap (snd (handlePlayersMoved upd s)) = ?h1(b := Object_assign (?h1 b) u')"
        using Some \<open>myPlayer s = Some b\<close>
        by (simp add: handlePlayersMoved_def Let_def case_prod_beta centerCameraOnPlayer_frame)
      show ?thesis
      proof (cases "b = a")
        case True
        then have "playerId s = Some i"
          using assms \<open>myPlayer s = Some b\<close> by (auto simp: store_ok_def)
        then have "map_of upd i = Some u'"
          using Some by (simp add: key_of_def)
        then show ?thesis
          using heap' True h1 by (simp add: Object_assign_idem)
      next
        case False
        then show ?thesis
          using heap' h1 by simp
      qed
    qed
  qed
qed


lemma store_ok_same:
  assumes "store_ok s"
    and "players s' = players s" and "lim s' = lim s" and "myPlayer s' = myPlayer s"
    and "playerId s' = playerId s" and "playerDataReceived s' = playerDataReceived s"
  shows "store_ok s'"
  using assms by (simp add: store_ok_def)

lemma store_ok_init: "store_ok (GameClient w h)"
  by (simp add: store_ok_def GameClient_def)

lemma store_ok_init_thrown: "store_ok (snd (connectToServer (Some err) (GameClient w h)))"
  by (simp add: store_ok_def GameClient_def connectToServer_def attemptReconnect_def)

lemma handleJoinGameSuccess_fields:
  assumes "alloc_players (jg_players m) (lim s) (heap s) = (tbl, n, h)"
  shows "players (snd (handleJoinGameSuccess m s)) = tbl"
    and "lim (snd (handleJoinGameSuccess m s)) = n"
    and "heap (snd (handleJoinGameSuccess m s)) = h"
    and "myPlayer (snd (handleJoinGameSuccess m s)) = tbl (jg_playerId m)"
    and "playerId (snd (handleJoinGameSuccess m s)) = Some (jg_playerId m)"
    and "playerDataReceived (snd (handleJoinGameSuccess m s))"
    and "worldImageLoaded (snd (handleJoinGameSuccess m s)) = worldImageLoaded s"
  using assms
  by (simp_all add: handleJoinGameSuccess_def case_prod_beta preloadAvatars_def
        checkAndCenterCamera_frame)

lemma store_ok_join: "store_ok (snd (handleJoinGameSuccess m s))"
proof -
  obtain tbl n h where a: "alloc_players (jg_players m) (lim s) (heap s) = (tbl, n, h)"
    by (cases "alloc_players (jg_players m) (lim s) (heap s)")
  note f = handleJoinGameSuccess_fields [OF a]
  note p = alloc_players_props [OF a]
  have inj: "inj_on tbl (dom tbl)" using p by blast
  have rng: "\<forall>i b. tbl i = Some b \<longrightarrow> b < n" using p by blast
  have own: "\<forall>b i. tbl (jg_playerId m) = Some b \<longrightarrow> tbl i = Some b \<longrightarrow> i = jg_playerId m"
    using inj by (auto simp: inj_on_def dom_def)
  show ?thesis
    unfolding store_ok_def f using inj rng own f(6) by auto
qed

lemma store_ok_joined:
  assumes "store_ok s"
  shows "store_ok (snd (handlePlayerJoined p av s))"
  using assms
  by (fastforce simp: store_ok_def handlePlayerJoined_def inj_on_def dom_def less_Suc_eq
        split: if_splits)

lemma store_ok_left:
  assumes "store_ok s"
  shows "store_ok (snd (handlePlayerLeft i s))"
  using assms
  by (fastforce simp: store_ok_def handlePlayerLeft_def inj_on_def dom_def split: if_splits)

lemma store_ok_moved:
  assumes "store_ok s"
  shows "store_ok (snd (handlePlayersMoved upd s))"
  using assms by (rule store_ok_same) (simp_all add: handlePlayersMoved_frame)

lemma store_ok_message:
  assumes "store_ok s"
  shows "store_ok (snd (handleServerMessage m s))"
  using assms
  by (cases m) (simp_all add: store_ok_join store_ok_joined store_ok_left store_ok_moved)

lemma store_ok_step:
  assumes "store_ok s"
  shows "store_ok (snd (step e s))"
proof (cases e)
  case (WsOnmessage m)
  then show ?thesis using assms by (simp add: store_ok_message)
next
  case (Resize w h)
  show ?thesis
    using assms unfolding Resize
    by (rule store_ok_same)
       (simp_all add: window_resize_def Let_def case_prod_beta centerCameraOnPlayer_frame)
next
  case WorldImageOnload
  show ?thesis
    using assms unfolding WorldImageOnload
    by (rule store_ok_same)
       (simp_all add: worldImage_onload_def case_prod_beta checkAndCenterCamera_frame)
next
  case WsOnopen
  show ?thesis
    using assms unfolding WsOnopen
    by (rule store_ok_same) (simp_all add: ws_onopen_def joinGame_def)
next
  case WsOnclose
  show ?thesis
    using assms unfolding WsOnclose
    by (rule store_ok_same) (simp_all add: ws_onclose_def attemptReconnect_def)
next
  case (ReconnectTimer thrown)
  show ?thesis
    using assms unfolding ReconnectTimer
    by (rule store_ok_same)
       (simp_all add: connectToServer_def attemptReconnect_def case_prod_beta
          split: option.splits)
next
  case (Keydown k)
  show ?thesis
    using assms unfolding Keydown
    by (rule store_ok_same) (simp_all add: keydown_def split: option.splits)
next
  case (Keyup k)
  show ?thesis
    using assms unfolding Keyup
    by (rule store_ok_same) (simp_all add: keyup_def sendStopCommand_def)
next
  case Blur
  show ?thesis
    using assms unfolding Blur
    by (rule store_ok_same) (simp_all add: blur_def sendStopCommand_def)
next
  case (Click mx my)
  show ?thesis
    using assms unfolding Click
    by (rule store_ok_same) (simp_all add: click_def)
next
  case RenderFrame
  show ?thesis
    using assms unfolding RenderFrame
    by (rule store_ok_same) (simp_all add: render_def)
qed

lemma reachable_store_ok: "reachable s \<Longrightarrow> store_ok s"
  by (induction rule: reachable.induct)
     (simp_all add: store_ok_init store_ok_init_thrown store_ok_step)

lemma run_reachable: "reachable s \<Longrightarrow> reachable (snd (run es s))"
proof (induction es arbitrary: s)
  case Nil
  then show ?case by simp
next
  case (Cons e es)
  have "reachable (snd (step e s))"
    using Cons.prems by (rule reachable_step)
  from Cons.IH [OF this] show ?case
    by (simp add: case_prod_beta)
qed


text \<open>
  C2 (as amended). In the client of \<open>game.js\<close>, for every reachable state, every actor id
  with an entry in the table and every \<open>players_moved\<close> update: the table keeps the same
  record for the id, the record is the old one with the update's fields assigned, so every
  field the update does not supply keeps its value and every supplied field takes the
  update's; and after any sequence of such updates a field that none of them supplies for
  the id still has its value.
\<close>

theorem handlePlayersMoved_merges:
  assumes "reachable s" and "players s i = Some a"
  shows "players (snd (handlePlayersMoved upd s)) i = Some a
       \<and> heap (snd (handlePlayersMoved upd s)) a
           = (case map_of upd i of None \<Rightarrow> heap s a | Some u \<Rightarrow> Object_assign (heap s a) u)
       \<and> (\<forall>f. Option.bind (map_of upd i) (\<lambda>u. supplied u f) = None \<longrightarrow>
              get_field (heap (snd (handlePlayersMoved upd s)) a) f = get_field (heap s a) f)
       \<and> (\<forall>f v. Option.bind (map_of upd i) (\<lambda>u. supplied u f) = Some v \<longrightarrow>
              get_field (heap (snd (handlePlayersMoved upd s)) a) f = v)
       \<and> (\<forall>upds f.
            (\<forall>upd \<in> set upds. Option.bind (map_of upd i) (\<lambda>u. supplied u f) = None) \<longrightarrow>
              players (snd (run (moved_events upds) s)) i = Some a
            \<and> get_field (heap (snd (run (moved_events upds) s)) a) f = get_field (heap s a) f)"
proof -
  have one: "players (snd (handlePlayersMoved upd t)) i = Some a
       \<and> heap (snd (handlePlayersMoved upd t)) a
           = (case map_of upd i of None \<Rightarrow> heap t a | Some u \<Rightarrow> Object_assign (heap t a) u)
       \<and> (\<forall>f. Option.bind (map_of upd i) (\<lambda>u. supplied u f) = None \<longrightarrow>
              get_field (heap (snd (handlePlayersMoved upd t)) a) f = get_field (heap t a) f)
       \<and> (\<forall>f v. Option.bind (map_of upd i) (\<lambda>u. supplied u f) = Some v \<longrightarrow>
              get_field (heap (snd (handlePlayersMoved upd t)) a) f = v)"
    if r: "reachable t" and e: "players t i = Some a" for t upd
  proof -
    have ok: "store_ok t" using r by (rule reachable_store_ok)
    have 1: "players (snd (handlePlayersMoved upd t)) i = Some a"
      using e by (simp add: handlePlayersMoved_frame)
    have 2: "heap (snd (handlePlayersMoved upd t)) a
           = (case map_of upd i of None \<Rightarrow> heap t a | Some u \<Rightarrow> Object_assign (heap t a) u)"
      using ok e by (rule handlePlayersMoved_heap_entry)
    have 3: "\<forall>f. Option.bind (map_of upd i) (\<lambda>u. supplied u f) = None \<longrightarrow>
              get_field (heap (snd (handlePlayersMoved upd t)) a) f = get_field (heap t a) f"
      unfolding 2 by (auto simp: get_field_Object_assign split: option.splits)
    have 4: "\<forall>f v. Option.bind (map_of upd i) (\<lambda>u. supplied u f) = Some v \<longrightarrow>
              get_field (heap (snd (handlePlayersMoved upd t)) a) f = v"
      unfolding 2 by (auto simp: get_field_Object_assign split: option.splits)
    show ?thesis using 1 2 3 4 by blast
  qed
  have many: "players (snd (run (moved_events upds) t)) i = Some a
            \<and> get_field (heap (snd (run (moved_events upds) t)) a) f = get_field (heap t a) f"
    if "\<forall>upd \<in> set upds. Option.bind (map_of upd i) (\<lambda>u. supplied u f) = None"
      and "reachable t" and "players t i = Some a" for upds f t
    using that
  proof (induction upds arbitrary: t)
    case Nil
    then show ?case by (simp add: moved_events_def)
  next
    case (Cons upd upds)
    let ?t1 = "snd (handlePlayersMoved upd t)"
    have st: "snd (step (WsOnmessage (PlayersMoved upd)) t) = ?t1" by simp
    have r1: "reachable ?t1"
      using reachable_step [OF Cons.prems(2), of "WsOnmessage (PlayersMoved upd)"] by simp
    note o = one [OF Cons.prems(2) Cons.prems(3), of upd]
    have e1: "players ?t1 i = Some a" using o by blast
    have n1: "Option.bind (map_of upd i) (\<lambda>u. supplied u f) = None"
      using Cons.prems(1) by simp
    have g1: "get_field (heap ?t1 a) f = get_field (heap t a) f"
      using o n1 by blast
    have rest: "\<forall>upd \<in> set upds. Option.bind (map_of upd i) (\<lambda>u. supplied u f) = None"
      using Cons.prems(1) by simp
    from Cons.IH [OF rest r1 e1] g1 show ?case
      by (simp add: moved_events_def case_prod_beta)
  qed
  show ?thesis
    using one [OF assms] many [OF _ assms] by blast
qed

lemma scenario_joined_reachable: "reachable (scenario_joined px py)"
  unfolding scenario_joined_def
  using reachable_step [OF reachable_init, of "WsOnmessage (JoinGame (scenario_join px py))" 800 600]
  by simp

theorem handlePlayersMoved_merges_witness:
  "reachable (scenario_joined 100 100)
   \<and> players (scenario_joined 100 100) ''p1'' = Some 0
   \<and> players (snd (handlePlayersMoved [(''p1'', move_to 500 100)] (scenario_joined 100 100))) ''p1''
       = Some 0
   \<and> Option.bind (map_of [(''p1'', move_to 500 100)] ''p1'') (\<lambda>u. supplied u F_username) = None
   \<and> get_field (heap (snd (handlePlayersMoved [(''p1'', move_to 500 100)]
                            (scenario_joined 100 100))) 0) F_username
       = JString ''Blankey''
   \<and> Option.bind (map_of [(''p1'', move_to 500 100)] ''p1'') (\<lambda>u. supplied u F_x)
       = Some (JNumber 500)
   \<and> get_field (heap (snd (handlePlayersMoved [(''p1'', move_to 500 100)]
                            (scenario_joined 100 100))) 0) F_x
       = JNumber 500
   \<and> get_field (heap (snd (run (moved_events [[(''p1'', move_to 500 100)],
                                               [(''p1'', move_to 600 200)]])
                            (scenario_joined 100 100))) 0) F_username
       = JString ''Blankey''"
proof -
  have r: "reachable (scenario_joined 100 100)"
    by (rule scenario_joined_reachable)
  have e: "players (scenario_joined 100 100) ''p1'' = Some 0"
    by (simp add: scenario_joined_fields)
  have n: "Option.bind (map_of [(''p1'', move_to 500 100)] ''p1'') (\<lambda>u. supplied u F_username) = None"
    by (simp add: move_to_def)
  have x: "Option.bind (map_of [(''p1'', move_to 500 100)] ''p1'') (\<lambda>u. supplied u F_x)
             = Some (JNumber 500)"
    by (simp add: move_to_def)
  have all: "\<forall>upd \<in> set [[(''p1'', move_to 500 100)], [(''p1'', move_to 600 200)]].
               Option.bind (map_of upd ''p1'') (\<lambda>u. supplied u F_username) = None"
    by (simp add: move_to_def)
  have g: "get_field (heap (scenario_joined 100 100) 0) F_username = JString ''Blankey''"
    by (simp add: scenario_joined_fields scenario_player_fields)
  note th = handlePlayersMoved_merges [OF r e, of "[(''p1'', move_to 500 100)]"]
  have 1: "players (snd (handlePlayersMoved [(''p1'', move_to 500 100)] (scenario_joined 100 100))) ''p1''
             = Some 0"
    using th by blast
  have 2: "get_field (heap (snd (handlePlayersMoved [(''p1'', move_to 500 100)]
                            (scenario_joined 100 100))) 0) F_username
             = JString ''Blankey''"
    using th n g by metis
  have 3: "get_field (heap (snd (handlePlayersMoved [(''p1'', move_to 500 100)]
                            (scenario_joined 100 100))) 0) F_x
             = JNumber 500"
    using th x by blast
  have 4: "get_field (heap (snd (run (moved_events [[(''p1'', move_to 500 100)],
                                               [(''p1'', move_to 600 200)]])
                            (scenario_joined 100 100))) 0) F_username
             = JString ''Blankey''"
    using th all g by metis
  show ?thesis using r e n x 1 2 3 4 by blast
qed

text \<open>
  The table of the stand-alone client in \<open>script.js\<close> does not merge: its
  \<open>players_moved\<close> handler makes the update object the entry of the id, so a field the
  update lacks, here the user name, is lost.
\<close>

lemma script_scenario_fields:
  "sc_players script_scenario ''p1'' = Some (fields_of (scenario_player ''p1'' 100 100))"
  "sc_myPlayerId script_scenario = Some ''p1''"
  by (simp_all add: script_scenario_def scenario_join_def script_init_def
       script_updateViewport_def script_joined_def key_of_def)

theorem script_players_moved_replaces:
  "map_option u_username (sc_players script_scenario ''p1'') = Some (Some ''Blankey'')
   \<and> map_option u_username
        (sc_players (snd (script_onmessage (PlayersMoved [(''p1'', move_to 500 100)])
                            script_scenario)) ''p1'')
       = Some None"
  by (simp add: script_scenario_fields fields_of_def scenario_player_fields Let_def
        script_updateViewport_def move_to_def)

section \<open>Removal of an actor\<close>














section \<open>The local reference\<close>

lemma join_aliases:
  assumes "map_of (jg_players m) (jg_playerId m) = Some p"
  shows "\<exists>b. myPlayer (snd (handleJoinGameSuccess m t)) = Some b
           \<and> players (snd (handleJoinGameSuccess m t)) (jg_playerId m) = Some b
           \<and> playerId (snd (handleJoinGameSuccess m t)) = Some (jg_playerId m)
           \<and> heap (snd (handleJoinGameSuccess m t)) b = p"
proof -
  obtain tbl n h where a: "alloc_players (jg_players m) (lim t) (heap t) = (tbl, n, h)"
    by (cases "alloc_players (jg_players m) (lim t) (heap t)")
  note f = handleJoinGameSuccess_fields [OF a]
  note pr = alloc_players_props [OF a]
  have "jg_playerId m \<in> dom tbl"
    using pr assms by (simp add: map_of_keys)
  then obtain b where b: "tbl (jg_playerId m) = Some b" by auto
  then have "map_of (jg_players m) (jg_playerId m) = Some (h b)"
    using pr by blast
  then have "h b = p" using assms by simp
  then show ?thesis using b f by simp
qed

lemma detached_moved:
  assumes "store_ok s" and "playerId s = Some i" and "myPlayer s = Some a"
    and "players s i = Some a" and "map_of upd i = Some u"
  shows "fst (handlePlayersMoved upd (snd (handlePlayerLeft i s))) = [CenterCamera]"
    and "heap (snd (handlePlayersMoved upd (snd (handlePlayerLeft i s)))) a
           = Object_assign (heap s a) u"
    and "cam_x (camera (snd (handlePlayersMoved upd (snd (handlePlayerLeft i s)))))
           = Math_round (max 0 (min (p_x (Object_assign (heap s a) u)
                                       - of_int (cam_width (camera s)) / 2)
                                    (of_int (worldWidth s - cam_width (camera s)))))"
    and "cam_y (camera (snd (handlePlayersMoved upd (snd (handlePlayerLeft i s)))))
           = Math_round (max 0 (min (p_y (Object_assign (heap s a) u)
                                       - of_int (cam_height (camera s)) / 2)
                                    (of_int (worldHeight s - cam_height (camera s)))))"
proof -
  let ?t = "snd (handlePlayerLeft i s)"
  let ?h1 = "assign_moved (players ?t) upd (map fst upd) (heap ?t)"
  have t: "players ?t = (players s)(i := None)" "heap ?t = heap s" "myPlayer ?t = Some a"
    "playerId ?t = Some i" "camera ?t = camera s" "worldWidth ?t = worldWidth s"
    "worldHeight ?t = worldHeight s"
    using assms by (simp_all add: handlePlayerLeft_def)
  have "\<forall>k\<in>set (map fst upd). players ?t k \<noteq> Some a"
    using assms(1,2,3) by (auto simp: t store_ok_def)
  then have h1: "?h1 a = heap s a"
    using assign_moved_other [of "map fst upd" "players ?t" a upd "heap ?t"] t by simp
  show "fst (handlePlayersMoved upd ?t) = [CenterCamera]"
    using assms(5) t
    by (simp add: handlePlayersMoved_def Let_def key_of_def case_prod_beta
          centerCameraOnPlayer_def)
  show "heap (snd (handlePlayersMoved upd ?t)) a = Object_assign (heap s a) u"
    using assms(5) t h1
    by (simp add: handlePlayersMoved_def Let_def key_of_def case_prod_beta
          centerCameraOnPlayer_frame)
  show "cam_x (camera (snd (handlePlayersMoved upd ?t)))
           = Math_round (max 0 (min (p_x (Object_assign (heap s a) u)
                                       - of_int (cam_width (camera s)) / 2)
                                    (of_int (worldWidth s - cam_width (camera s)))))"
    using assms(5) t h1
    by (simp add: handlePlayersMoved_def Let_def key_of_def case_prod_beta
          centerCameraOnPlayer_def)
  show "cam_y (camera (snd (handlePlayersMoved upd ?t)))
           = Math_round (max 0 (min (p_y (Object_assign (heap s a) u)
                                       - of_int (cam_height (camera s)) / 2)
                                    (of_int (worldHeight s - cam_height (camera s)))))"
    using assms(5) t h1
    by (simp add: handlePlayersMoved_def Let_def key_of_def case_prod_beta
          centerCameraOnPlayer_def)
qed

text \<open>
  C10 (as amended). A join response whose roster holds the local id leaves \<open>myPlayer\<close> and
  the table entry of the local id on one record of the store. From a reachable state in
  which they are on one record: every \<open>players_moved\<close> update keeps them there, and the
  record then holds the merge, whichever of the two references reads it; every
  \<open>player_joined\<close> for another id keeps them there; \<open>player_left\<close> for the local id
  removes the table entry and keeps the local reference, after which a \<open>players_moved\<close>
  update that names the local id still assigns to the detached record and centres the
  camera on it.
\<close>

theorem local_reference_aliasing:
  assumes "reachable s" and "playerId s = Some i" and "myPlayer s = Some a"
    and "players s i = Some a"
  shows "(\<forall>m t p. map_of (jg_players m) (jg_playerId m) = Some p \<longrightarrow>
            (\<exists>b. myPlayer (snd (handleJoinGameSuccess m t)) = Some b
                \<and> players (snd (handleJoinGameSuccess m t)) (jg_playerId m) = Some b
                \<and> playerId (snd (handleJoinGameSuccess m t)) = Some (jg_playerId m)
                \<and> heap (snd (handleJoinGameSuccess m t)) b = p))
       \<and> (\<forall>upd. myPlayer (snd (handlePlayersMoved upd s)) = Some a
                \<and> players (snd (handlePlayersMoved upd s)) i = Some a
                \<and> playerId (snd (handlePlayersMoved upd s)) = Some i
                \<and> heap (snd (handlePlayersMoved upd s)) a
                    = (case map_of upd i of
                         None \<Rightarrow> heap s a
                       | Some u \<Rightarrow> Object_assign (heap s a) u))
       \<and> (\<forall>p av. p_id p \<noteq> i \<longrightarrow>
              myPlayer (snd (handlePlayerJoined p av s)) = Some a
            \<and> players (snd (handlePlayerJoined p av s)) i = Some a
            \<and> playerId (snd (handlePlayerJoined p av s)) = Some i
            \<and> heap (snd (handlePlayerJoined p av s)) a = heap s a)
       \<and> players (snd (handlePlayerLeft i s)) i = None
       \<and> myPlayer (snd (handlePlayerLeft i s)) = Some a
       \<and> (\<forall>upd u. map_of upd i = Some u \<longrightarrow>
              fst (handlePlayersMoved upd (snd (handlePlayerLeft i s))) = [CenterCamera]
            \<and> heap (snd (handlePlayersMoved upd (snd (handlePlayerLeft i s)))) a
                = Object_assign (heap s a) u
            \<and> cam_x (camera (snd (handlePlayersMoved upd (snd (handlePlayerLeft i s)))))
                = Math_round (max 0 (min (p_x (Object_assign (heap s a) u)
                                            - of_int (cam_width (camera s)) / 2)
                                         (of_int (worldWidth s - cam_width (camera s)))))
            \<and> cam_y (camera (snd (handlePlayersMoved upd (snd (handlePlayerLeft i s)))))
                = Math_round (max 0 (min (p_y (Object_assign (heap s a) u)
                                            - of_int (cam_height (camera s)) / 2)
                                         (of_int (worldHeight s - cam_height (camera s))))))"
proof -
  have ok: "store_ok s" using assms(1) by (rule reachable_store_ok)
  have fresh: "a < lim s" using ok assms(3) by (simp add: store_ok_def)
  have 1: "\<forall>m t p. map_of (jg_players m) (jg_playerId m) = Some p \<longrightarrow>
            (\<exists>b. myPlayer (snd (handleJoinGameSuccess m t)) = Some b
                \<and> players (snd (handleJoinGameSuccess m t)) (jg_playerId m) = Some b
                \<and> playerId (snd (handleJoinGameSuccess m t)) = Some (jg_playerId m)
                \<and> heap (snd (handleJoinGameSuccess m t)) b = p)"
    using join_aliases by blast
  have 2: "\<forall>upd. myPlayer (snd (handlePlayersMoved upd s)) = Some a
                \<and> players (snd (handlePlayersMoved upd s)) i = Some a
                \<and> playerId (snd (handlePlayersMoved upd s)) = Some i
                \<and> heap (snd (handlePlayersMoved upd s)) a
                    = (case map_of upd i of
                         None \<Rightarrow> heap s a
                       | Some u \<Rightarrow> Object_assign (heap s a) u)"
    using assms handlePlayersMoved_heap_entry [OF ok assms(4)]
    by (simp add: handlePlayersMoved_frame)
  have 3: "\<forall>p av. p_id p \<noteq> i \<longrightarrow>
              myPlayer (snd (handlePlayerJoined p av s)) = Some a
            \<and> players (snd (handlePlayerJoined p av s)) i = Some a
            \<and> playerId (snd (handlePlayerJoined p av s)) = Some i
            \<and> heap (snd (handlePlayerJoined p av s)) a = heap s a"
    using assms fresh by (simp add: handlePlayerJoined_def)
  have 4: "players (snd (handlePlayerLeft i s)) i = None
       \<and> myPlayer (snd (handlePlayerLeft i s)) = Some a"
    using assms by (simp add: handlePlayerLeft_def)
  have 5: "\<forall>upd u. map_of upd i = Some u \<longrightarrow>
              fst (handlePlayersMoved upd (snd (handlePlayerLeft i s))) = [CenterCamera]
            \<and> heap (snd (handlePlayersMoved upd (snd (handlePlayerLeft i s)))) a
                = Object_assign (heap s a) u
            \<and> cam_x (camera (snd (handlePlayersMoved upd (snd (handlePlayerLeft i s)))))
                = Math_round (max 0 (min (p_x (Object_assign (heap s a) u)
                                            - of_int (cam_width (camera s)) / 2)
                                         (of_int (worldWidth s - cam_width (camera s)))))
            \<and> cam_y (camera (snd (handlePlayersMoved upd (snd (handlePlayerLeft i s)))))
                = Math_round (max 0 (min (p_y (Object_assign (heap s a) u)
                                            - of_int (cam_height (camera s)) / 2)
                                         (of_int (worldHeight s - cam_height (camera s)))))"
    using detached_moved [OF ok assms(2) assms(3) assms(4)] by blast
  show ?thesis using 1 2 3 4 5 by blast
qed


theorem local_reference_aliasing_witness:
  "reachable (scenario_joined 100 100)
   \<and> playerId (scenario_joined 100 100) = Some ''p1''
   \<and> myPlayer (scenario_joined 100 100) = Some 0
   \<and> players (scenario_joined 100 100) ''p1'' = Some 0
   \<and> map_of (jg_players (scenario_join 100 100)) (jg_playerId (scenario_join 100 100))
       = Some (scenario_player ''p1'' 100 100)
   \<and> myPlayer (snd (handleJoinGameSuccess (scenario_join 100 100) (GameClient 800 600)))
       = players (snd (handleJoinGameSuccess (scenario_join 100 100) (GameClient 800 600)))
           (jg_playerId (scenario_join 100 100))
   \<and> myPlayer (snd (handleJoinGameSuccess (scenario_join 100 100) (GameClient 800 600)))
       \<noteq> None
   \<and> myPlayer (snd (handlePlayersMoved [(''p1'', move_to 500 500)] (scenario_joined 100 100)))
       = Some 0
   \<and> players (snd (handlePlayersMoved [(''p1'', move_to 500 500)] (scenario_joined 100 100))) ''p1''
       = Some 0
   \<and> p_id (scenario_player ''p2'' 7 7) \<noteq> ''p1''
   \<and> players (snd (handlePlayerJoined (scenario_player ''p2'' 7 7) scenario_avatar
                      (scenario_joined 100 100))) ''p1'' = Some 0
   \<and> players (snd (handlePlayerLeft ''p1'' (scenario_joined 100 100))) ''p1'' = None
   \<and> myPlayer (snd (handlePlayerLeft ''p1'' (scenario_joined 100 100))) = Some 0
   \<and> map_of [(''p1'', move_to 500 500)] ''p1'' = Some (move_to 500 500)
   \<and> fst (handlePlayersMoved [(''p1'', move_to 500 500)]
             (snd (handlePlayerLeft ''p1'' (scenario_joined 100 100)))) = [CenterCamera]
   \<and> heap (snd (handlePlayersMoved [(''p1'', move_to 500 500)]
             (snd (handlePlayerLeft ''p1'' (scenario_joined 100 100))))) 0
       = Object_assign (heap (scenario_joined 100 100) 0) (move_to 500 500)"
proof -
  have r: "reachable (scenario_joined 100 100)"
    by (rule scenario_joined_reachable)
  have h: "playerId (scenario_joined 100 100) = Some ''p1''"
          "myPlayer (scenario_joined 100 100) = Some 0"
          "players (scenario_joined 100 100) ''p1'' = Some 0"
    by (simp_all add: scenario_joined_fields)
  have d: "p_id (scenario_player ''p2'' 7 7) \<noteq> ''p1''"
    by (simp add: scenario_player_fields)
  have u: "map_of [(''p1'', move_to 500 500)] ''p1'' = Some (move_to 500 500)"
    by simp
  have m: "map_of (jg_players (scenario_join 100 100)) (jg_playerId (scenario_join 100 100))
             = Some (scenario_player ''p1'' 100 100)"
    by (simp add: scenario_join_def)
  note th = local_reference_aliasing [OF r h]
  from th m obtain b where
    b: "myPlayer (snd (handleJoinGameSuccess (scenario_join 100 100) (GameClient 800 600)))
          = Some b"
       "players (snd (handleJoinGameSuccess (scenario_join 100 100) (GameClient 800 600)))
          (jg_playerId (scenario_join 100 100)) = Some b"
    by blast
  have j: "myPlayer (snd (handleJoinGameSuccess (scenario_join 100 100) (GameClient 800 600)))
       = players (snd (handleJoinGameSuccess (scenario_join 100 100) (GameClient 800 600)))
           (jg_playerId (scenario_join 100 100))"
    "myPlayer (snd (handleJoinGameSuccess (scenario_join 100 100) (GameClient 800 600)))
       \<noteq> None"
    using b by simp_all
  show ?thesis
    using r h d u m j th by blast
qed

text \<open>
  A \<open>player_joined\<close> message for the local id itself ends the sharing: the table entry
  is the message's new record, the local reference still the old one. And a join response
  whose roster lacks the local id sets no local reference.
\<close>

theorem local_joined_breaks_aliasing:
  "playerId (snd (handlePlayerJoined (scenario_player ''p1'' 7 7) scenario_avatar
                   (scenario_joined 100 100))) = Some ''p1''
   \<and> myPlayer (snd (handlePlayerJoined (scenario_player ''p1'' 7 7) scenario_avatar
                   (scenario_joined 100 100))) = Some 0
   \<and> players (snd (handlePlayerJoined (scenario_player ''p1'' 7 7) scenario_avatar
                   (scenario_joined 100 100))) ''p1'' = Some 1
   \<and> p_x (heap (snd (handlePlayerJoined (scenario_player ''p1'' 7 7) scenario_avatar
                   (scenario_joined 100 100))) 0) = 100
   \<and> p_x (heap (snd (handlePlayerJoined (scenario_player ''p1'' 7 7) scenario_avatar
                   (scenario_joined 100 100))) 1) = 7
   \<and> myPlayer (snd (handleJoinGameSuccess ((scenario_join 100 100)\<lparr>jg_playerId := ''p9''\<rparr>)
                   (GameClient 800 600))) = None"
  by (simp add: handlePlayerJoined_def scenario_joined_fields scenario_player_fields
        handleJoinGameSuccess_def scenario_join_def GameClient_def checkAndCenterCamera_def
        preloadAvatars_def)


section \<open>When the camera is centred\<close>

lemma fst_centerCameraOnPlayer:
  "fst (centerCameraOnPlayer s) = (if myPlayer s = None then [] else [CenterCamera])"
  by (simp add: centerCameraOnPlayer_def Let_def split: option.splits)

lemma fst_checkAndCenterCamera:
  "fst (checkAndCenterCamera s)
     = (if worldImageLoaded s \<and> playerDataReceived s \<and> myPlayer s \<noteq> None
        then [CenterCamera] else [])"
  by (simp add: checkAndCenterCamera_def fst_centerCameraOnPlayer)

lemma centering_message:
  assumes "store_ok s" and "CenterCamera \<in> set (fst (handleServerMessage m s))"
  shows "playerDataReceived (snd (handleServerMessage m s))
       \<and> myPlayer (snd (handleServerMessage m s)) \<noteq> None
       \<and> (worldImageLoaded (snd (handleServerMessage m s)) \<or> (\<exists>upd. m = PlayersMoved upd))"
proof (cases m)
  case (JoinGame j)
  obtain tbl n h where a: "alloc_players (jg_players j) (lim s) (heap s) = (tbl, n, h)"
    by (cases "alloc_players (jg_players j) (lim s) (heap s)")
  note f = handleJoinGameSuccess_fields [OF a]
  have ok: "jg_success j"
    using assms(2) JoinGame by (auto split: if_splits)
  have "CenterCamera \<in> set (fst (handleJoinGameSuccess j s))"
    using assms(2) JoinGame ok by simp
  then have "worldImageLoaded s \<and> tbl (jg_playerId j) \<noteq> None"
    using a
    by (auto simp: handleJoinGameSuccess_def case_prod_beta fst_checkAndCenterCamera
          split: if_splits)
  then show ?thesis
    using JoinGame ok f by simp
next
  case (PlayerJoined p av)
  then show ?thesis using assms(2) by (simp add: handlePlayerJoined_def)
next
  case (PlayersMoved upd)
  have "myPlayer s \<noteq> None"
    using assms(2) PlayersMoved
    by (auto simp: handlePlayersMoved_def Let_def case_prod_beta split: option.splits)
  then have "playerDataReceived s \<and> myPlayer s \<noteq> None"
    using assms(1) by (auto simp: store_ok_def)
  then show ?thesis
    using PlayersMoved by (simp add: handlePlayersMoved_frame)
next
  case (PlayerLeft i)
  then show ?thesis using assms(2) by (simp add: handlePlayerLeft_def)
next
  case (UnknownAction a)
  then show ?thesis using assms(2) by simp
qed

lemma centering_step:
  assumes "store_ok s" and "CenterCamera \<in> set (fst (step e s))"
  shows "playerDataReceived (snd (step e s))
       \<and> myPlayer (snd (step e s)) \<noteq> None
       \<and> (worldImageLoaded (snd (step e s))
           \<or> (\<exists>w h. e = Resize w h) \<or> (\<exists>upd. e = WsOnmessage (PlayersMoved upd)))"
proof (cases e)
  case (WsOnmessage m)
  then show ?thesis
    using centering_message [OF assms(1), of m] assms(2) by auto
next
  case (Resize w h)
  have "myPlayer s \<noteq> None"
    using assms(2) Resize
    by (auto simp: window_resize_def Let_def case_prod_beta split: if_splits)
  then have "playerDataReceived s \<and> myPlayer s \<noteq> None"
    using assms(1) by (auto simp: store_ok_def)
  then show ?thesis
    using Resize
    by (simp add: window_resize_def Let_def case_prod_beta centerCameraOnPlayer_frame)
next
  case WorldImageOnload
  have "playerDataReceived s \<and> myPlayer s \<noteq> None"
    using assms(2) WorldImageOnload
    by (auto simp: worldImage_onload_def case_prod_beta fst_checkAndCenterCamera
          split: if_splits)
  then show ?thesis
    using WorldImageOnload
    by (simp add: worldImage_onload_def case_prod_beta checkAndCenterCamera_frame)
next
  case WsOnopen
  then show ?thesis using assms(2) by (simp add: ws_onopen_def joinGame_def)
next
  case WsOnclose
  then show ?thesis using assms(2) by (simp add: ws_onclose_def attemptReconnect_def split: if_splits)
next
  case (ReconnectTimer thrown)
  then show ?thesis
    using assms(2)
    by (simp add: connectToServer_def attemptReconnect_def split: option.splits if_splits)
next
  case (Keydown k)
  then show ?thesis using assms(2) by (simp add: keydown_def split: option.splits if_splits)
next
  case (Keyup k)
  then show ?thesis using assms(2) by (simp add: keyup_def sendStopCommand_def split: if_splits)
next
  case Blur
  then show ?thesis using assms(2) by (simp add: blur_def sendStopCommand_def split: if_splits)
next
  case (Click mx my)
  then show ?thesis using assms(2) by (simp add: click_def split: if_splits)
next
  case RenderFrame
  then show ?thesis using assms(2) by (simp add: render_def)
qed

lemma onload_centres:
  assumes "store_ok s" and "myPlayer s \<noteq> None"
  shows "fst (step WorldImageOnload s) = [CenterCamera]
       \<and> worldImageLoaded (snd (step WorldImageOnload s))
       \<and> cam_x (camera (snd (step WorldImageOnload s)))
           = cam_x (camera (snd (centerCameraOnPlayer s)))
       \<and> cam_y (camera (snd (step WorldImageOnload s)))
           = cam_y (camera (snd (centerCameraOnPlayer s)))"
proof -
  have pd: "playerDataReceived s"
    using assms by (auto simp: store_ok_def)
  have c: "checkAndCenterCamera (s\<lparr>worldImageLoaded := True\<rparr>)
             = centerCameraOnPlayer (s\<lparr>worldImageLoaded := True\<rparr>)"
    using assms(2) pd by (simp add: checkAndCenterCamera_def)
  show ?thesis
    using assms(2)
    by (auto simp: worldImage_onload_def c case_prod_beta centerCameraOnPlayer_def Let_def
          split: option.splits)
qed

text \<open>
  C3 (as amended). In every reachable state, a step in which camera centering executes
  ends with the roster-ready condition true and a local actor set. Centering on the join
  response and on the load of the backdrop (through \<open>checkAndCenterCamera\<close>) executes
  only with the backdrop ready as well; the re-centering of the resize handler and of
  \<open>handlePlayersMoved\<close> executes whenever a local actor is set, the backdrop ready or
  not. If a join response with the local actor in its roster has arrived, then at the step
  where the backdrop becomes ready centering executes, on the local actor.
\<close>

theorem centering_gate:
  assumes "reachable s"
  shows "(\<forall>e. CenterCamera \<in> set (fst (step e s)) \<longrightarrow>
            playerDataReceived (snd (step e s))
          \<and> myPlayer (snd (step e s)) \<noteq> None
          \<and> (worldImageLoaded (snd (step e s))
              \<or> (\<exists>w h. e = Resize w h) \<or> (\<exists>upd. e = WsOnmessage (PlayersMoved upd))))
       \<and> (myPlayer s \<noteq> None \<longrightarrow>
            playerDataReceived s
          \<and> fst (step WorldImageOnload s) = [CenterCamera]
          \<and> worldImageLoaded (snd (step WorldImageOnload s))
          \<and> cam_x (camera (snd (step WorldImageOnload s)))
              = cam_x (camera (snd (centerCameraOnPlayer s)))
          \<and> cam_y (camera (snd (step WorldImageOnload s)))
              = cam_y (camera (snd (centerCameraOnPlayer s))))
       \<and> (\<forall>w h. myPlayer s \<noteq> None \<longrightarrow> fst (step (Resize w h) s) = [CenterCamera])
       \<and> (\<forall>upd. myPlayer s \<noteq> None \<and> map_of upd (key_of (playerId s)) \<noteq> None \<longrightarrow>
            fst (step (WsOnmessage (PlayersMoved upd)) s) = [CenterCamera])"
proof -
  have ok: "store_ok s" using assms by (rule reachable_store_ok)
  have 1: "\<forall>e. CenterCamera \<in> set (fst (step e s)) \<longrightarrow>
            playerDataReceived (snd (step e s))
          \<and> myPlayer (snd (step e s)) \<noteq> None
          \<and> (worldImageLoaded (snd (step e s))
              \<or> (\<exists>w h. e = Resize w h) \<or> (\<exists>upd. e = WsOnmessage (PlayersMoved upd)))"
    using centering_step [OF ok] by blast
  have 2: "myPlayer s \<noteq> None \<longrightarrow>
            playerDataReceived s
          \<and> fst (step WorldImageOnload s) = [CenterCamera]
          \<and> worldImageLoaded (snd (step WorldImageOnload s))
          \<and> cam_x (camera (snd (step WorldImageOnload s)))
              = cam_x (camera (snd (centerCameraOnPlayer s)))
          \<and> cam_y (camera (snd (step WorldImageOnload s)))
              = cam_y (camera (snd (centerCameraOnPlayer s)))"
    using onload_centres [OF ok] ok by (auto simp: store_ok_def)
  have 3: "\<forall>w h. myPlayer s \<noteq> None \<longrightarrow> fst (step (Resize w h) s) = [CenterCamera]"
    by (simp add: window_resize_def Let_def case_prod_beta fst_centerCameraOnPlayer)
  have 4: "\<forall>upd. myPlayer s \<noteq> None \<and> map_of upd (key_of (playerId s)) \<noteq> None \<longrightarrow>
            fst (step (WsOnmessage (PlayersMoved upd)) s) = [CenterCamera]"
    by (auto simp: handlePlayersMoved_def Let_def case_prod_beta fst_centerCameraOnPlayer
          split: option.splits)
  show ?thesis using 1 2 3 4 by blast
qed

theorem centering_gate_witness:
  "reachable (scenario_joined 100 100)
   \<and> myPlayer (scenario_joined 100 100) \<noteq> None
   \<and> \<not> worldImageLoaded (scenario_joined 100 100)
   \<and> fst (step WorldImageOnload (scenario_joined 100 100)) = [CenterCamera]
   \<and> CenterCamera \<in> set (fst (step WorldImageOnload (scenario_joined 100 100)))
   \<and> playerDataReceived (snd (step WorldImageOnload (scenario_joined 100 100)))
   \<and> worldImageLoaded (snd (step WorldImageOnload (scenario_joined 100 100)))
   \<and> fst (step (Resize 1024 768) (scenario_joined 100 100)) = [CenterCamera]
   \<and> map_of [(''p1'', move_to 500 500)] (key_of (playerId (scenario_joined 100 100))) \<noteq> None
   \<and> fst (step (WsOnmessage (PlayersMoved [(''p1'', move_to 500 500)])) (scenario_joined 100 100))
       = [CenterCamera]"
proof -
  have r: "reachable (scenario_joined 100 100)"
    by (rule scenario_joined_reachable)
  have h: "myPlayer (scenario_joined 100 100) \<noteq> None"
          "\<not> worldImageLoaded (scenario_joined 100 100)"
          "map_of [(''p1'', move_to 500 500)] (key_of (playerId (scenario_joined 100 100))) \<noteq> None"
    by (simp_all add: scenario_joined_fields key_of_def)
  note th = centering_gate [OF r]
  have a: "fst (step WorldImageOnload (scenario_joined 100 100)) = [CenterCamera]"
          "worldImageLoaded (snd (step WorldImageOnload (scenario_joined 100 100)))"
    using th h(1) by blast+
  then have b: "CenterCamera \<in> set (fst (step WorldImageOnload (scenario_joined 100 100)))"
    by simp
  have c: "playerDataReceived (snd (step WorldImageOnload (scenario_joined 100 100)))"
    using th b by blast
  have d: "fst (step (Resize 1024 768) (scenario_joined 100 100)) = [CenterCamera]"
    using th h(1) by blast
  have e: "fst (step (WsOnmessage (PlayersMoved [(''p1'', move_to 500 500)])) (scenario_joined 100 100))
       = [CenterCamera]"
    using th h(1) h(3) by blast
  show ?thesis using r h a b c d e by blast
qed

text \<open>
  After the join response and before the backdrop is loaded, a resize of the window and a
  \<open>players_moved\<close> update for the local id each centre the camera. And after a join
  response whose roster lacks the local id, the load of the backdrop centres nothing.
\<close>

theorem centering_before_backdrop:
  "reachable (scenario_joined 100 100)
   \<and> \<not> worldImageLoaded (scenario_joined 100 100)
   \<and> fst (step (Resize 1024 768) (scenario_joined 100 100)) = [CenterCamera]
   \<and> \<not> worldImageLoaded (snd (step (Resize 1024 768) (scenario_joined 100 100)))
   \<and> cam_x (camera (snd (step (Resize 1024 768) (scenario_joined 100 100)))) = 0
   \<and> fst (step (WsOnmessage (PlayersMoved [(''p1'', move_to 900 900)])) (scenario_joined 100 100))
       = [CenterCamera]
   \<and> \<not> worldImageLoaded
        (snd (step (WsOnmessage (PlayersMoved [(''p1'', move_to 900 900)])) (scenario_joined 100 100)))
   \<and> cam_x (camera
        (snd (step (WsOnmessage (PlayersMoved [(''p1'', move_to 900 900)])) (scenario_joined 100 100))))
       = 500
   \<and> fst (run [WsOnmessage (JoinGame ((scenario_join 100 100)\<lparr>jg_playerId := ''p9''\<rparr>)),
                WorldImageOnload] (GameClient 800 600)) = []"
proof -
  have r: "reachable (scenario_joined 100 100)"
    by (rule scenario_joined_reachable)
  have absent: "fst (run [WsOnmessage (JoinGame ((scenario_join 100 100)\<lparr>jg_playerId := ''p9''\<rparr>)),
                          WorldImageOnload] (GameClient 800 600)) = []"
    by (simp add: handleJoinGameSuccess_def scenario_join_def GameClient_def
          checkAndCenterCamera_def preloadAvatars_def worldImage_onload_def)
  have rest: "\<not> worldImageLoaded (scenario_joined 100 100)
   \<and> fst (step (Resize 1024 768) (scenario_joined 100 100)) = [CenterCamera]
   \<and> \<not> worldImageLoaded (snd (step (Resize 1024 768) (scenario_joined 100 100)))
   \<and> cam_x (camera (snd (step (Resize 1024 768) (scenario_joined 100 100)))) = 0
   \<and> fst (step (WsOnmessage (PlayersMoved [(''p1'', move_to 900 900)])) (scenario_joined 100 100))
       = [CenterCamera]
   \<and> \<not> worldImageLoaded
        (snd (step (WsOnmessage (PlayersMoved [(''p1'', move_to 900 900)])) (scenario_joined 100 100)))
   \<and> cam_x (camera
        (snd (step (WsOnmessage (PlayersMoved [(''p1'', move_to 900 900)])) (scenario_joined 100 100))))
       = 500"
    by (simp add: window_resize_def handlePlayersMoved_def Let_def scenario_joined_fields
          scenario_player_fields key_of_def centerCameraOnPlayer_def Object_assign_def
          move_to_def Math_round_def)
  show ?thesis using r rest absent by blast
qed


section \<open>Key releases\<close>

lemma arrow_lower:
  "replace_first ''arrow'' [] (toLowerCase ''ArrowUp'') = ''up''"
  "replace_first ''arrow'' [] (toLowerCase ''ArrowDown'') = ''down''"
  "replace_first ''arrow'' [] (toLowerCase ''ArrowLeft'') = ''left''"
  "replace_first ''arrow'' [] (toLowerCase ''ArrowRight'') = ''right''"
  by (simp_all add: toLowerCase_def toLowerCase_char_def)

lemma script_keyup_concrete:
  assumes "script_joined s" and "sc_ws_open s"
  shows
    "sc_keysPressed s = [(''ArrowUp'', True), (''ArrowDown'', True), (''ArrowLeft'', False), (''ArrowRight'', False)] \<Longrightarrow>
       fst (script_keyup ''ArrowUp'' s) = [WsSend (MoveDir ''down'')]
       \<and> fst (script_keyup ''ArrowDown'' (snd (script_keyup ''ArrowUp'' s))) = [WsSend StopReq]
       \<and> sc_keysPressed (snd (script_keyup ''ArrowDown'' (snd (script_keyup ''ArrowUp'' s))))
           = [(''ArrowUp'', False), (''ArrowDown'', False), (''ArrowLeft'', False), (''ArrowRight'', False)]"
    "sc_keysPressed s = [(''ArrowUp'', True), (''ArrowDown'', False), (''ArrowLeft'', True), (''ArrowRight'', False)] \<Longrightarrow>
       fst (script_keyup ''ArrowUp'' s) = [WsSend (MoveDir ''left'')]
       \<and> fst (script_keyup ''ArrowLeft'' (snd (script_keyup ''ArrowUp'' s))) = [WsSend StopReq]
       \<and> sc_keysPressed (snd (script_keyup ''ArrowLeft'' (snd (script_keyup ''ArrowUp'' s))))
           = [(''ArrowUp'', False), (''ArrowDown'', False), (''ArrowLeft'', False), (''ArrowRight'', False)]"
    "sc_keysPressed s = [(''ArrowUp'', True), (''ArrowDown'', False), (''ArrowLeft'', False), (''ArrowRight'', True)] \<Longrightarrow>
       fst (script_keyup ''ArrowUp'' s) = [WsSend (MoveDir ''right'')]
       \<and> fst (script_keyup ''ArrowRight'' (snd (script_keyup ''ArrowUp'' s))) = [WsSend StopReq]
       \<and> sc_keysPressed (snd (script_keyup ''ArrowRight'' (snd (script_keyup ''ArrowUp'' s))))
           = [(''ArrowUp'', False), (''ArrowDown'', False), (''ArrowLeft'', False), (''ArrowRight'', False)]"
    "sc_keysPressed s = [(''ArrowUp'', True), (''ArrowDown'', True), (''ArrowLeft'', False), (''ArrowRight'', False)] \<Longrightarrow>
       fst (script_keyup ''ArrowDown'' s) = [WsSend (MoveDir ''up'')]
       \<and> fst (script_keyup ''ArrowUp'' (snd (script_keyup ''ArrowDown'' s))) = [WsSend StopReq]
       \<and> sc_keysPressed (snd (script_keyup ''ArrowUp'' (snd (script_keyup ''ArrowDown'' s))))
           = [(''ArrowUp'', False), (''ArrowDown'', False), (''ArrowLeft'', False), (''ArrowRight'', False)]"
    "sc_keysPressed s = [(''ArrowUp'', False), (''ArrowDown'', True), (''ArrowLeft'', True), (''ArrowRight'', False)] \<Longrightarrow>
       fst (script_keyup ''ArrowDown'' s) = [WsSend (MoveDir ''left'')]
       \<and> fst (script_keyup ''ArrowLeft'' (snd (script_keyup ''ArrowDown'' s))) = [WsSend StopReq]
       \<and> sc_keysPressed (snd (script_keyup ''ArrowLeft'' (snd (script_keyup ''ArrowDown'' s))))
           = [(''ArrowUp'', False), (''ArrowDown'', False), (''ArrowLeft'', False), (''ArrowRight'', False)]"
    "sc_keysPressed s = [(''ArrowUp'', False), (''ArrowDown'', True), (''ArrowLeft'', False), (''ArrowRight'', True)] \<Longrightarrow>
       fst (script_keyup ''ArrowDown'' s) = [WsSend (MoveDir ''right'')]
       \<and> fst (script_keyup ''ArrowRight'' (snd (script_keyup ''ArrowDown'' s))) = [WsSend StopReq]
       \<and> sc_keysPressed (snd (script_keyup ''ArrowRight'' (snd (script_keyup ''ArrowDown'' s))))
           = [(''ArrowUp'', False), (''ArrowDown'', False), (''ArrowLeft'', False), (''ArrowRight'', False)]"
    "sc_keysPressed s = [(''ArrowUp'', True), (''ArrowDown'', False), (''ArrowLeft'', True), (''ArrowRight'', False)] \<Longrightarrow>
       fst (script_keyup ''ArrowLeft'' s) = [WsSend (MoveDir ''up'')]
       \<and> fst (script_keyup ''ArrowUp'' (snd (script_keyup ''ArrowLeft'' s))) = [WsSend StopReq]
       \<and> sc_keysPressed (snd (script_keyup ''ArrowUp'' (snd (script_keyup ''ArrowLeft'' s))))
           = [(''ArrowUp'', False), (''ArrowDown'', False), (''ArrowLeft'', False), (''ArrowRight'', False)]"
    "sc_keysPressed s = [(''ArrowUp'', False), (''ArrowDown'', True), (''ArrowLeft'', True), (''ArrowRight'', False)] \<Longrightarrow>
       fst (script_keyup ''ArrowLeft'' s) = [WsSend (MoveDir ''down'')]
       \<and> fst (script_keyup ''ArrowDown'' (snd (script_keyup ''ArrowLeft'' s))) = [WsSend StopReq]
       \<and> sc_keysPressed (snd (script_keyup ''ArrowDown'' (snd (script_keyup ''ArrowLeft'' s))))
           = [(''ArrowUp'', False), (''ArrowDown'', False), (''ArrowLeft'', False), (''ArrowRight'', False)]"
    "sc_keysPressed s = [(''ArrowUp'', False), (''ArrowDown'', False), (''ArrowLeft'', True), (''ArrowRight'', True)] \<Longrightarrow>
       fst (script_keyup ''ArrowLeft'' s) = [WsSend (MoveDir ''right'')]
       \<and> fst (script_keyup ''ArrowRight'' (snd (script_keyup ''ArrowLeft'' s))) = [WsSend StopReq]
       \<and> sc_keysPressed (snd (script_keyup ''ArrowRight'' (snd (script_keyup ''ArrowLeft'' s))))
           = [(''ArrowUp'', False), (''ArrowDown'', False), (''ArrowLeft'', False), (''ArrowRight'', False)]"
    "sc_keysPressed s = [(''ArrowUp'', True), (''ArrowDown'', False), (''ArrowLeft'', False), (''ArrowRight'', True)] \<Longrightarrow>
       fst (script_keyup ''ArrowRight'' s) = [WsSend (MoveDir ''up'')]
       \<and> fst (script_keyup ''ArrowUp'' (snd (script_keyup ''ArrowRight'' s))) = [WsSend StopReq]
       \<and> sc_keysPressed (snd (script_keyup ''ArrowUp'' (snd (script_keyup ''ArrowRight'' s))))
           = [(''ArrowUp'', False), (''ArrowDown'', False), (''ArrowLeft'', False), (''ArrowRight'', False)]"
    "sc_keysPressed s = [(''ArrowUp'', False), (''ArrowDown'', True), (''ArrowLeft'', False), (''ArrowRight'', True)] \<Longrightarrow>
       fst (script_keyup ''ArrowRight'' s) = [WsSend (MoveDir ''down'')]
       \<and> fst (script_keyup ''ArrowDown'' (snd (script_keyup ''ArrowRight'' s))) = [WsSend StopReq]
       \<and> sc_keysPressed (snd (script_keyup ''ArrowDown'' (snd (script_keyup ''ArrowRight'' s))))
           = [(''ArrowUp'', False), (''ArrowDown'', False), (''ArrowLeft'', False), (''ArrowRight'', False)]"
    "sc_keysPressed s = [(''ArrowUp'', False), (''ArrowDown'', False), (''ArrowLeft'', True), (''ArrowRight'', True)] \<Longrightarrow>
       fst (script_keyup ''ArrowRight'' s) = [WsSend (MoveDir ''left'')]
       \<and> fst (script_keyup ''ArrowLeft'' (snd (script_keyup ''ArrowRight'' s))) = [WsSend StopReq]
       \<and> sc_keysPressed (snd (script_keyup ''ArrowLeft'' (snd (script_keyup ''ArrowRight'' s))))
           = [(''ArrowUp'', False), (''ArrowDown'', False), (''ArrowLeft'', False), (''ArrowRight'', False)]"
  using assms
  by (simp_all add: script_keyup_def Let_def script_joined_def script_sendMoveCommand_def
        script_sendStopCommand_def arrow_lower)


lemma keys_shape:
  assumes "map fst kp = [''ArrowUp'', ''ArrowDown'', ''ArrowLeft'', ''ArrowRight'']"
  obtains b1 b2 b3 b4 where
    "kp = [(''ArrowUp'', b1), (''ArrowDown'', b2), (''ArrowLeft'', b3), (''ArrowRight'', b4)]"
proof -
  from assms obtain e1 e2 e3 e4 where kp: "kp = [e1, e2, e3, e4]"
    by (auto simp: map_eq_Cons_conv)
  then have "fst e1 = ''ArrowUp''" "fst e2 = ''ArrowDown''" "fst e3 = ''ArrowLeft''"
    "fst e4 = ''ArrowRight''"
    using assms by simp_all
  then have "kp = [(''ArrowUp'', snd e1), (''ArrowDown'', snd e2), (''ArrowLeft'', snd e3),
                   (''ArrowRight'', snd e4)]"
    using kp by (metis prod.collapse)
  then show thesis by (rule that)
qed



lemma two_of_four:
  assumes "k1 = a \<or> k1 = b \<or> k1 = c \<or> k1 = d"
    and "k2 = a \<or> k2 = b \<or> k2 = c \<or> k2 = d"
    and "k1 \<noteq> k2"
  obtains
    (c1) "k1 = a" "k2 = b" |
    (c2) "k1 = a" "k2 = c" |
    (c3) "k1 = a" "k2 = d" |
    (c4) "k1 = b" "k2 = a" |
    (c5) "k1 = b" "k2 = c" |
    (c6) "k1 = b" "k2 = d" |
    (c7) "k1 = c" "k2 = a" |
    (c8) "k1 = c" "k2 = b" |
    (c9) "k1 = c" "k2 = d" |
    (c10) "k1 = d" "k2 = a" |
    (c11) "k1 = d" "k2 = b" |
    (c12) "k1 = d" "k2 = c"
  using assms by blast

lemma keyup_stops:
  "key \<in> set movement_keys \<Longrightarrow> ws_open t \<Longrightarrow> keyup key t = ([WsSend StopReq], t)"
  by (simp add: keyup_def sendStopCommand_def)

text \<open>
  C4 (as amended). In the stand-alone client of \<open>script.js\<close>, joined and with an open
  socket, with exactly two arrow keys held: releasing one of them sends exactly one move
  command, for the direction of the key that remains held, and no stop command; releasing
  the remaining key then sends exactly one stop command and leaves no key held. In the
  client of \<open>game.js\<close>, which keeps no record of held keys, the release of any movement
  key sends exactly one stop command when the socket is open.
\<close>

theorem script_keyup_two_held:
  assumes j: "script_joined s" and o: "sc_ws_open s"
    and shape: "map fst (sc_keysPressed s)
                  = [''ArrowUp'', ''ArrowDown'', ''ArrowLeft'', ''ArrowRight'']"
    and ne: "k1 \<noteq> k2"
    and held: "\<forall>k. map_of (sc_keysPressed s) k = Some True \<longleftrightarrow> k = k1 \<or> k = k2"
  shows "(\<exists>d. arrow_direction k2 = Some d \<and> fst (script_keyup k1 s) = [WsSend (MoveDir d)])
       \<and> fst (script_keyup k2 (snd (script_keyup k1 s))) = [WsSend StopReq]
       \<and> (\<forall>k. map_of (sc_keysPressed (snd (script_keyup k2 (snd (script_keyup k1 s))))) k
                \<noteq> Some True)
       \<and> (\<forall>key t. key \<in> set movement_keys \<and> ws_open t \<longrightarrow>
              fst (step (Keyup key) t) = [WsSend StopReq])"
proof -
  from shape obtain b1 b2 b3 b4 where
    kp: "sc_keysPressed s
           = [(''ArrowUp'', b1), (''ArrowDown'', b2), (''ArrowLeft'', b3), (''ArrowRight'', b4)]"
    by (rule keys_shape)
  have h1: "map_of (sc_keysPressed s) k1 = Some True"
    and h2: "map_of (sc_keysPressed s) k2 = Some True"
    using held by simp_all
  have in1: "k1 = ''ArrowUp'' \<or> k1 = ''ArrowDown'' \<or> k1 = ''ArrowLeft'' \<or> k1 = ''ArrowRight''"
    using h1 unfolding kp by (simp split: if_splits)
  have in2: "k2 = ''ArrowUp'' \<or> k2 = ''ArrowDown'' \<or> k2 = ''ArrowLeft'' \<or> k2 = ''ArrowRight''"
    using h2 unfolding kp by (simp split: if_splits)
  have b: "b1 \<longleftrightarrow> (''ArrowUp'' = k1 \<or> ''ArrowUp'' = k2)"
          "b2 \<longleftrightarrow> (''ArrowDown'' = k1 \<or> ''ArrowDown'' = k2)"
          "b3 \<longleftrightarrow> (''ArrowLeft'' = k1 \<or> ''ArrowLeft'' = k2)"
          "b4 \<longleftrightarrow> (''ArrowRight'' = k1 \<or> ''ArrowRight'' = k2)"
    using held [rule_format, of "''ArrowUp''"] held [rule_format, of "''ArrowDown''"]
          held [rule_format, of "''ArrowLeft''"] held [rule_format, of "''ArrowRight''"]
    unfolding kp by simp_all
  from in1 in2 ne
  have core: "(\<exists>d. arrow_direction k2 = Some d \<and> fst (script_keyup k1 s) = [WsSend (MoveDir d)])
         \<and> fst (script_keyup k2 (snd (script_keyup k1 s))) = [WsSend StopReq]
         \<and> (\<forall>k. map_of (sc_keysPressed (snd (script_keyup k2 (snd (script_keyup k1 s))))) k
                  \<noteq> Some True)"
  proof (cases rule: two_of_four)
    case c1
    have t: "sc_keysPressed s = [(''ArrowUp'', True), (''ArrowDown'', True), (''ArrowLeft'', False), (''ArrowRight'', False)]"
      unfolding kp b by (simp add: c1)
    show ?thesis
      using script_keyup_concrete(1) [OF j o t] by (simp add: c1 arrow_direction_def)
  next
    case c2
    have t: "sc_keysPressed s = [(''ArrowUp'', True), (''ArrowDown'', False), (''ArrowLeft'', True), (''ArrowRight'', False)]"
      unfolding kp b by (simp add: c2)
    show ?thesis
      using script_keyup_concrete(2) [OF j o t] by (simp add: c2 arrow_direction_def)
  next
    case c3
    have t: "sc_keysPressed s = [(''ArrowUp'', True), (''ArrowDown'', False), (''ArrowLeft'', False), (''ArrowRight'', True)]"
      unfolding kp b by (simp add: c3)
    show ?thesis
      using script_keyup_concrete(3) [OF j o t] by (simp add: c3 arrow_direction_def)
  next
    case c4
    have t: "sc_keysPressed s = [(''ArrowUp'', True), (''ArrowDown'', True), (''ArrowLeft'', False), (''ArrowRight'', False)]"
      unfolding kp b by (simp add: c4)
    show ?thesis
      using script_keyup_concrete(4) [OF j o t] by (simp add: c4 arrow_direction_def)
  next
    case c5
    have t: "sc_keysPressed s = [(''ArrowUp'', False), (''ArrowDown'', True), (''ArrowLeft'', True), (''ArrowRight'', False)]"
      unfolding kp b by (simp add: c5)
    show ?thesis
      using script_keyup_concrete(5) [OF j o t] by (simp add: c5 arrow_direction_def)
  next
    case c6
    have t: "sc_keysPressed s = [(''ArrowUp'', False), (''ArrowDown'', True), (''ArrowLeft'', False), (''ArrowRight'', True)]"
      unfolding kp b by (simp add: c6)
    show ?thesis
      using script_keyup_concrete(6) [OF j o t] by (simp add: c6 arrow_direction_def)
  next
    case c7
    have t: "sc_keysPressed s = [(''ArrowUp'', True), (''ArrowDown'', False), (''ArrowLeft'', True), (''ArrowRight'', False)]"
      unfolding kp b by (simp add: c7)
    show ?thesis
      using script_keyup_concrete(7) [OF j o t] by (simp add: c7 arrow_direction_def)
  next
    case c8
    have t: "sc_keysPressed s = [(''ArrowUp'', False), (''ArrowDown'', True), (''ArrowLeft'', True), (''ArrowRight'', False)]"
      unfolding kp b by (simp add: c8)
    show ?thesis
      using script_keyup_concrete(8) [OF j o t] by (simp add: c8 arrow_direction_def)
  next
    case c9
    have t: "sc_keysPressed s = [(''ArrowUp'', False), (''ArrowDown'', False), (''ArrowLeft'', True), (''ArrowRight'', True)]"
      unfolding kp b by (simp add: c9)
    show ?thesis
      using script_keyup_concrete(9) [OF j o t] by (simp add: c9 arrow_direction_def)
  next
    case c10
    have t: "sc_keysPressed s = [(''ArrowUp'', True), (''ArrowDown'', False), (''ArrowLeft'', False), (''ArrowRight'', True)]"
      unfolding kp b by (simp add: c10)
    show ?thesis
      using script_keyup_concrete(10) [OF j o t] by (simp add: c10 arrow_direction_def)
  next
    case c11
    have t: "sc_keysPressed s = [(''ArrowUp'', False), (''ArrowDown'', True), (''ArrowLeft'', False), (''ArrowRight'', True)]"
      unfolding kp b by (simp add: c11)
    show ?thesis
      using script_keyup_concrete(11) [OF j o t] by (simp add: c11 arrow_direction_def)
  next
    case c12
    have t: "sc_keysPressed s = [(''ArrowUp'', False), (''ArrowDown'', False), (''ArrowLeft'', True), (''ArrowRight'', True)]"
      unfolding kp b by (simp add: c12)
    show ?thesis
      using script_keyup_concrete(12) [OF j o t] by (simp add: c12 arrow_direction_def)
  qed
  have game: "\<forall>key t. key \<in> set movement_keys \<and> ws_open t \<longrightarrow>
                fst (step (Keyup key) t) = [WsSend StopReq]"
    by (simp add: keyup_stops)
  show ?thesis using core game by blast
qed


lemma script_two_held_fields:
  "script_joined script_two_held"
  "sc_ws_open script_two_held"
  "sc_keysPressed script_two_held
     = [(''ArrowUp'', True), (''ArrowDown'', False), (''ArrowLeft'', False), (''ArrowRight'', True)]"
  by (simp_all add: script_two_held_def script_scenario_def scenario_join_def script_init_def
        script_updateViewport_def script_joined_def key_of_def script_keydown_def
        arrow_direction_def)

lemma game_two_held_fields:
  "ws_open game_two_held"
  "fst (run [WsOnopen, Keydown ''ArrowUp'', Keydown ''ArrowRight''] (GameClient 800 600))
     = [WsSend (JoinGameReq ''Blankey''), WsSend (MoveDir ''up''), WsSend (MoveDir ''right'')]"
  by (simp_all add: game_two_held_def GameClient_def ws_onopen_def joinGame_def keydown_def
        keydown_direction_def)

theorem script_keyup_two_held_witness:
  "script_joined script_two_held
   \<and> sc_ws_open script_two_held
   \<and> map fst (sc_keysPressed script_two_held)
       = [''ArrowUp'', ''ArrowDown'', ''ArrowLeft'', ''ArrowRight'']
   \<and> ''ArrowUp'' \<noteq> ''ArrowRight''
   \<and> map_of (sc_keysPressed script_two_held) ''ArrowUp'' = Some True
   \<and> map_of (sc_keysPressed script_two_held) ''ArrowRight'' = Some True
   \<and> map_of (sc_keysPressed script_two_held) ''ArrowDown'' = Some False
   \<and> map_of (sc_keysPressed script_two_held) ''ArrowLeft'' = Some False
   \<and> arrow_direction ''ArrowRight'' = Some ''right''
   \<and> fst (script_keyup ''ArrowUp'' script_two_held) = [WsSend (MoveDir ''right'')]
   \<and> fst (script_keyup ''ArrowRight'' (snd (script_keyup ''ArrowUp'' script_two_held)))
       = [WsSend StopReq]
   \<and> ''ArrowUp'' \<in> set movement_keys
   \<and> ws_open game_two_held
   \<and> fst (step (Keyup ''ArrowUp'') game_two_held) = [WsSend StopReq]"
proof -
  note f = script_two_held_fields
  have shape: "map fst (sc_keysPressed script_two_held)
                 = [''ArrowUp'', ''ArrowDown'', ''ArrowLeft'', ''ArrowRight'']"
    by (simp add: f)
  have ne: "''ArrowUp'' \<noteq> ''ArrowRight''" by simp
  have held: "\<forall>k. map_of (sc_keysPressed script_two_held) k = Some True
                \<longleftrightarrow> k = ''ArrowUp'' \<or> k = ''ArrowRight''"
    by (simp add: f)
  have vals: "map_of (sc_keysPressed script_two_held) ''ArrowUp'' = Some True"
    "map_of (sc_keysPressed script_two_held) ''ArrowRight'' = Some True"
    "map_of (sc_keysPressed script_two_held) ''ArrowDown'' = Some False"
    "map_of (sc_keysPressed script_two_held) ''ArrowLeft'' = Some False"
    by (simp_all add: f)
  have dir: "arrow_direction ''ArrowRight'' = Some ''right''"
    by (simp add: arrow_direction_def)
  have mk: "''ArrowUp'' \<in> set movement_keys"
    by (simp add: movement_keys_def)
  note th = script_keyup_two_held [OF f(1) f(2) shape ne held]
  have a: "fst (script_keyup ''ArrowUp'' script_two_held) = [WsSend (MoveDir ''right'')]"
    using th dir by auto
  have b: "fst (script_keyup ''ArrowRight'' (snd (script_keyup ''ArrowUp'' script_two_held)))
             = [WsSend StopReq]"
    using th by blast
  have c: "fst (step (Keyup ''ArrowUp'') game_two_held) = [WsSend StopReq]"
    using th mk game_two_held_fields(1) by blast
  show ?thesis
    using f(1) f(2) shape ne vals dir a b mk game_two_held_fields(1) c by blast
qed

text \<open>
  In \<open>game.js\<close>, with up and right held, the release of up sends a stop and no move.
\<close>

theorem game_keyup_sends_stop:
  "fst (run [WsOnopen, Keydown ''ArrowUp'', Keydown ''ArrowRight''] (GameClient 800 600))
     = [WsSend (JoinGameReq ''Blankey''), WsSend (MoveDir ''up''), WsSend (MoveDir ''right'')]
   \<and> fst (step (Keyup ''ArrowUp'') game_two_held) = [WsSend StopReq]"
  using game_two_held_fields
  by (simp add: keyup_def movement_keys_def sendStopCommand_def)


section \<open>Frame resolution\<close>

lemma resolveFrame_fallback:
  assumes w: "p_facing p = ''west''"
    and e: "map_of byDir ''west'' = None \<or> map_of byDir ''west'' = Some []"
  shows "resolveFrame byDir p
           = (case map_of byDir ''east'' of
                None \<Rightarrow> None
              | Some es \<Rightarrow>
                  if es = [] then None
                  else map_option (\<lambda>img. (img, True))
                         (js_index es (min (p_animationFrame p) (int (length es) - 1))))"
  using e by (auto simp: resolveFrame_def Let_def w split: option.splits)

lemma js_index_clamped:
  assumes "es \<noteq> []" and "0 \<le> i"
  shows "js_index es (min i (int (length es) - 1)) = Some (es ! nat (min i (int (length es) - 1)))"
    and "nat (min i (int (length es) - 1)) < length es"
proof -
  have pos: "0 < length es" using assms(1) by simp
  have lo: "0 \<le> min i (int (length es) - 1)"
    using assms(2) pos by simp
  have hi: "min i (int (length es) - 1) < int (length es)"
    by simp
  show "nat (min i (int (length es) - 1)) < length es"
    using lo hi by linarith
  show "js_index es (min i (int (length es) - 1))
          = Some (es ! nat (min i (int (length es) - 1)))"
    using lo hi by (simp only: js_index_def) simp
qed

text \<open>
  C7 (as amended). In \<open>drawPlayer\<close> of \<open>game.js\<close>, for an actor facing west whose loaded
  images have an empty or missing west sequence, and for every non-negative
  \<open>animationFrame\<close>: with a non-empty east sequence the frame resolved is the east image
  at the index cut off at the last one (the image at the index itself when it is in range,
  the last image when it is past the end), with \<open>flipX\<close> set, and the index is valid; with
  the east sequence empty or missing as well, resolution returns without a frame and the
  actor is not drawn.
\<close>

theorem resolveFrame_west_fallback:
  assumes "p_facing p = ''west''"
    and "map_of byDir ''west'' = None \<or> map_of byDir ''west'' = Some []"
    and "0 \<le> p_animationFrame p"
  shows "(\<forall>es. map_of byDir ''east'' = Some es \<and> es \<noteq> [] \<longrightarrow>
            resolveFrame byDir p
              = Some (es ! nat (min (p_animationFrame p) (int (length es) - 1)), True)
          \<and> nat (min (p_animationFrame p) (int (length es) - 1)) < length es
          \<and> (p_animationFrame p < int (length es) \<longrightarrow>
                resolveFrame byDir p = Some (es ! nat (p_animationFrame p), True))
          \<and> (int (length es) \<le> p_animationFrame p \<longrightarrow>
                resolveFrame byDir p = Some (last es, True)))
       \<and> (map_of byDir ''east'' = None \<or> map_of byDir ''east'' = Some [] \<longrightarrow>
            resolveFrame byDir p = None
          \<and> (\<forall>s av. avatars s (p_avatar p) = Some av \<and> av_loadedImagesByDir av = Some byDir
                  \<longrightarrow> drawPlayer s p = None))"
proof -
  note rf = resolveFrame_fallback [OF assms(1) assms(2)]
  have some: "resolveFrame byDir p
              = Some (es ! nat (min (p_animationFrame p) (int (length es) - 1)), True)
          \<and> nat (min (p_animationFrame p) (int (length es) - 1)) < length es
          \<and> (p_animationFrame p < int (length es) \<longrightarrow>
                resolveFrame byDir p = Some (es ! nat (p_animationFrame p), True))
          \<and> (int (length es) \<le> p_animationFrame p \<longrightarrow>
                resolveFrame byDir p = Some (last es, True))"
    if east: "map_of byDir ''east'' = Some es" and ne: "es \<noteq> []" for es
  proof -
    note c = js_index_clamped [OF ne assms(3)]
    have 1: "resolveFrame byDir p
              = Some (es ! nat (min (p_animationFrame p) (int (length es) - 1)), True)"
      using rf east ne c(1) by simp
    have 3: "resolveFrame byDir p = Some (es ! nat (p_animationFrame p), True)"
      if "p_animationFrame p < int (length es)"
      using 1 that by (simp add: min_def)
    have "nat (int (length es) - 1) = length es - 1" by simp
    then have 4: "resolveFrame byDir p = Some (last es, True)"
      if "int (length es) \<le> p_animationFrame p"
      using 1 that ne by (simp add: min_def last_conv_nth)
    show ?thesis using 1 c(2) 3 4 by blast
  qed
  have none: "resolveFrame byDir p = None
          \<and> (\<forall>s av. avatars s (p_avatar p) = Some av \<and> av_loadedImagesByDir av = Some byDir
                  \<longrightarrow> drawPlayer s p = None)"
    if "map_of byDir ''east'' = None \<or> map_of byDir ''east'' = Some []"
  proof -
    have r: "resolveFrame byDir p = None"
      using rf that by auto
    then show ?thesis
      by (auto simp: drawPlayer_def Let_def)
  qed
  show ?thesis using some none by blast
qed

lemma scenario_loaded:
  "av_loadedImagesByDir (preloadAvatar scenario_avatar)
     = Some [(''east'', [new_Image ''e0'', new_Image ''e1'', new_Image ''e2'']),
             (''south'', [new_Image ''s0''])]"
  by (simp add: preloadAvatar_def scenario_avatar_def)

theorem resolveFrame_west_fallback_witness:
  "p_facing (scenario_player ''p1'' 100 100) = ''west''
   \<and> map_of [(''east'', [new_Image ''e0'', new_Image ''e1'', new_Image ''e2'']),
              (''south'', [new_Image ''s0''])] ''west'' = None
   \<and> 0 \<le> p_animationFrame (scenario_player ''p1'' 100 100)
   \<and> map_of [(''east'', [new_Image ''e0'', new_Image ''e1'', new_Image ''e2'']),
              (''south'', [new_Image ''s0''])] ''east''
       = Some [new_Image ''e0'', new_Image ''e1'', new_Image ''e2'']
   \<and> int (length [new_Image ''e0'', new_Image ''e1'', new_Image ''e2''])
       \<le> p_animationFrame (scenario_player ''p1'' 100 100)
   \<and> resolveFrame [(''east'', [new_Image ''e0'', new_Image ''e1'', new_Image ''e2'']),
                    (''south'', [new_Image ''s0''])] (scenario_player ''p1'' 100 100)
       = Some (new_Image ''e2'', True)
   \<and> p_facing ((scenario_player ''p1'' 100 100)\<lparr>p_animationFrame := 1\<rparr>) = ''west''
   \<and> resolveFrame [(''east'', [new_Image ''e0'', new_Image ''e1'', new_Image ''e2'']),
                    (''south'', [new_Image ''s0''])]
        ((scenario_player ''p1'' 100 100)\<lparr>p_animationFrame := 1\<rparr>)
       = Some (new_Image ''e1'', True)
   \<and> map_of [(''west'', []), (''south'', [new_Image ''s0''])] ''west'' = Some []
   \<and> map_of [(''west'', []), (''south'', [new_Image ''s0''])] ''east'' = None
   \<and> resolveFrame [(''west'', []), (''south'', [new_Image ''s0''])]
        (scenario_player ''p1'' 100 100) = None
   \<and> avatars
        ((GameClient 800 600)
           \<lparr>avatars :=
              [''knight'' \<mapsto>
                 scenario_avatar
                   \<lparr>av_loadedImagesByDir :=
                      Some [(''west'', []), (''south'', [new_Image ''s0''])]\<rparr>]\<rparr>)
        (p_avatar (scenario_player ''p1'' 100 100))
       = Some (scenario_avatar
                 \<lparr>av_loadedImagesByDir :=
                    Some [(''west'', []), (''south'', [new_Image ''s0''])]\<rparr>)
   \<and> drawPlayer
        ((GameClient 800 600)
           \<lparr>avatars :=
              [''knight'' \<mapsto>
                 scenario_avatar
                   \<lparr>av_loadedImagesByDir :=
                      Some [(''west'', []), (''south'', [new_Image ''s0''])]\<rparr>]\<rparr>)
        (scenario_player ''p1'' 100 100) = None"
proof -
  let ?av = "scenario_avatar
               \<lparr>av_loadedImagesByDir := Some [(''west'', []), (''south'', [new_Image ''s0''])]\<rparr>"
  let ?s = "(GameClient 800 600)\<lparr>avatars := [''knight'' \<mapsto> ?av]\<rparr>"
  let ?byDir = "[(''east'', [new_Image ''e0'', new_Image ''e1'', new_Image ''e2'']),
                 (''south'', [new_Image ''s0''])]"
  let ?p = "scenario_player ''p1'' 100 100"
  have f: "p_facing ?p = ''west''" "p_facing (?p\<lparr>p_animationFrame := 1\<rparr>) = ''west''"
    by (simp_all add: scenario_player_def)
  have w: "map_of ?byDir ''west'' = None \<or> map_of ?byDir ''west'' = Some []" by simp
  have i: "0 \<le> p_animationFrame ?p" "0 \<le> p_animationFrame (?p\<lparr>p_animationFrame := 1\<rparr>)"
    by (simp_all add: scenario_player_def)
  have e: "map_of ?byDir ''east'' = Some [new_Image ''e0'', new_Image ''e1'', new_Image ''e2'']"
    by simp
  have big: "int (length [new_Image ''e0'', new_Image ''e1'', new_Image ''e2''])
               \<le> p_animationFrame ?p"
    by (simp add: scenario_player_def)
  have w2: "map_of [(''west'', []), (''south'', [new_Image ''s0''])] ''west'' = None
            \<or> map_of [(''west'', []), (''south'', [new_Image ''s0''])] ''west'' = Some []"
    by simp
  have e2: "map_of [(''west'', []), (''south'', [new_Image ''s0''])] ''east'' = None"
    by simp
  have a: "resolveFrame ?byDir ?p = Some (new_Image ''e2'', True)"
    using resolveFrame_west_fallback [OF f(1) w i(1)] e big by simp
  have b: "resolveFrame ?byDir (?p\<lparr>p_animationFrame := 1\<rparr>) = Some (new_Image ''e1'', True)"
    using resolveFrame_west_fallback [OF f(2) w i(2)] e by simp
  have c: "resolveFrame [(''west'', []), (''south'', [new_Image ''s0''])] ?p = None"
    using resolveFrame_west_fallback [OF f(1) w2 i(1)] e2 by simp
  have av: "avatars ?s (p_avatar ?p) = Some ?av"
    and ld: "av_loadedImagesByDir ?av = Some [(''west'', []), (''south'', [new_Image ''s0''])]"
    by (simp_all add: scenario_player_def)
  have d: "drawPlayer ?s ?p = None"
    using resolveFrame_west_fallback [OF f(1) w2 i(1)] e2 av ld by blast
  show ?thesis
    using f i(1) e big a b c e2 av d by simp
qed

text \<open>
  The variant of \<open>debug_game.js\<close> does not cut the index off and falls back only when the
  west sequence is missing: an index past the end leaves the actor undrawn, and so does a
  west sequence that is present and empty. In \<open>game.js\<close> the index is cut off at the
  upper end only: a negative index leaves the actor undrawn.
\<close>

theorem debug_resolveFrame_skips:
  "debug_resolveFrame [(''east'', [''e0'', ''e1'', ''e2'']), (''south'', [''s0''])]
     (scenario_player ''p1'' 100 100) = None
   \<and> debug_resolveFrame [(''east'', [''e0'', ''e1'', ''e2'']), (''south'', [''s0''])]
        ((scenario_player ''p1'' 100 100)\<lparr>p_animationFrame := 1\<rparr>) = Some (''e1'', True)
   \<and> debug_resolveFrame [(''west'', []), (''east'', [''e0'', ''e1'', ''e2''])]
        ((scenario_player ''p1'' 100 100)\<lparr>p_animationFrame := 1\<rparr>) = None
   \<and> resolveFrame [(''east'', [new_Image ''e0'', new_Image ''e1'', new_Image ''e2''])]
        ((scenario_player ''p1'' 100 100)\<lparr>p_animationFrame := - 1\<rparr>) = None"
  by (simp add: debug_resolveFrame_def resolveFrame_def scenario_player_def js_index_def)


end
